theory Spec2Isabelle
  imports Main "HOL-Library.Sublist"
begin

section \<open>Python values used by \<open>lib/element.py\<close>\<close>

text \<open>
  Text is a \<open>string\<close>: a list of characters, one per code point below 256; \<open>length\<close> is
  Python's \<open>len\<close>. Integers are \<open>int\<close>. Every exception the modelled code can raise is a
  value of \<open>py_error\<close>, and a function that can raise returns \<open>py_error + 'a\<close>.
\<close>

datatype py_error = ValueError | IndexError | AttributeError | TypeError | XMLSyntaxError

definition and_then :: "py_error + 'a \<Rightarrow> ('a \<Rightarrow> py_error + 'b) \<Rightarrow> py_error + 'b" where
  "and_then m f = (case m of Inl e \<Rightarrow> Inl e | Inr x \<Rightarrow> f x)"

definition NL :: char where
  "NL = CHR 0x0A"

definition BS :: char where
  "BS = CHR 0x5C"

definition DQ :: char where
  "DQ = CHR 0x22"

definition NBSP :: char where
  "NBSP = CHR 0xA0"

text \<open>\<open>str.isspace\<close> on one code point below 256.\<close>

definition py_isspace :: "char \<Rightarrow> bool" where
  "py_isspace c = (let n = of_char c :: nat in
     (9 \<le> n \<and> n \<le> 13) \<or> (28 \<le> n \<and> n \<le> 32) \<or> n = 133 \<or> n = 160)"

text \<open>\<open>s.strip()\<close>: leading and trailing white space removed.\<close>

definition py_strip :: "string \<Rightarrow> string" where
  "py_strip s = rev (dropWhile py_isspace (rev (dropWhile py_isspace s)))"

text \<open>\<open>sep.join(xs)\<close>.\<close>

fun py_join :: "string \<Rightarrow> string list \<Rightarrow> string" where
  "py_join sep [] = []"
| "py_join sep [x] = x"
| "py_join sep (x # y # ys) = x @ sep @ py_join sep (y # ys)"

text \<open>
  \<open>s.split(sep)\<close> with an explicit separator: the text is scanned from the left, \<open>cur\<close>
  holds (reversed) the characters of the segment being read. An empty separator raises
  \<open>ValueError\<close>.
\<close>

function split_from :: "string \<Rightarrow> string \<Rightarrow> string \<Rightarrow> string list" where
  "split_from sep cur s =
     (if s = [] then [rev cur]
      else if sep \<noteq> [] \<and> prefix sep s then rev cur # split_from sep [] (drop (length sep) s)
      else split_from sep (hd s # cur) (tl s))"
  by pat_completeness auto
termination
  by (relation "measure (\<lambda>(sep, cur, s). length s)") auto

declare split_from.simps [simp del]

definition py_split :: "string \<Rightarrow> string \<Rightarrow> py_error + string list" where
  "py_split s sep = (if sep = [] then Inl ValueError else Inr (split_from sep [] s))"

text \<open>Slices \<open>xs[:i]\<close>, \<open>xs[i:]\<close> and \<open>s[-2:]\<close>; a negative index counts from the end.\<close>

definition py_index :: "'a list \<Rightarrow> int \<Rightarrow> nat" where
  "py_index xs i = (if i < 0 then nat (int (length xs) + i) else nat i)"

definition slice_to :: "'a list \<Rightarrow> int \<Rightarrow> 'a list" where
  "slice_to xs i = take (py_index xs i) xs"

definition slice_from :: "'a list \<Rightarrow> int \<Rightarrow> 'a list" where
  "slice_from xs i = drop (py_index xs i) xs"

text \<open>\<open>str(n)\<close> for a natural number, and \<open>format(n, '05')\<close>.\<close>

definition digit_char :: "nat \<Rightarrow> char" where
  "digit_char d = char_of (48 + d)"

function str_nat :: "nat \<Rightarrow> string" where
  "str_nat n = (if n < 10 then [digit_char n] else str_nat (n div 10) @ [digit_char (n mod 10)])"
  by pat_completeness auto
termination
  by (relation "measure id") auto

declare str_nat.simps [simp del]

definition str_int :: "int \<Rightarrow> string" where
  "str_int i = (if i < 0 then CHR ''-'' # str_nat (nat (- i)) else str_nat (nat i))"

definition format_05 :: "nat \<Rightarrow> string" where
  "format_05 n = (let d = str_nat n in replicate (5 - length d) CHR ''0'' @ d)"

text \<open>
  \<open>template.format(arg)\<close> with one positional argument: \<open>{{\<close> and \<open>}}\<close> are literal
  braces, \<open>{}\<close> is the argument. A second \<open>{}\<close> raises \<open>IndexError\<close>, a single brace
  raises \<open>ValueError\<close>. Numbered, named and converted fields are outside the fragment
  modelled here and are reported as \<open>ValueError\<close> too.
\<close>

fun format_from :: "bool \<Rightarrow> string \<Rightarrow> string \<Rightarrow> py_error + string" where
  "format_from used arg [] = Inr []"
| "format_from used arg [c] =
     (if c = CHR ''{'' \<or> c = CHR ''}'' then Inl ValueError else Inr [c])"
| "format_from used arg (c # d # s) =
     (if c = CHR ''{'' \<and> d = CHR ''{'' then map_sum id ((#) CHR ''{'') (format_from used arg s)
      else if c = CHR ''}'' \<and> d = CHR ''}'' then map_sum id ((#) CHR ''}'') (format_from used arg s)
      else if c = CHR ''{'' \<and> d = CHR ''}'' then
        (if used then Inl IndexError else map_sum id ((@) arg) (format_from True arg s))
      else if c = CHR ''{'' \<or> c = CHR ''}'' then Inl ValueError
      else map_sum id ((#) c) (format_from used arg (d # s)))"

definition py_format :: "string \<Rightarrow> string \<Rightarrow> py_error + string" where
  "py_format template arg = format_from False arg template"

text \<open>
  \<open>s.replace(old, new)\<close>: the occurrences of \<open>old\<close> are found from the left and do not
  overlap; with an empty \<open>old\<close>, \<open>new\<close> is put before every character and at the end.
\<close>

function replace_from :: "string \<Rightarrow> string \<Rightarrow> string \<Rightarrow> string" where
  "replace_from old new s =
     (if s = [] then []
      else if old \<noteq> [] \<and> prefix old s then new @ replace_from old new (drop (length old) s)
      else hd s # replace_from old new (tl s))"
  by pat_completeness auto
termination
  by (relation "measure (\<lambda>(old, new, s). length s)") auto

declare replace_from.simps [simp del]

definition py_replace :: "string \<Rightarrow> string \<Rightarrow> string \<Rightarrow> string" where
  "py_replace s old new =
     (if old = [] then new @ concat (map (\<lambda>c. c # new) s) else replace_from old new s)"

text \<open>\<open>s.strip(chars)\<close>.\<close>

definition py_strip_chars :: "string \<Rightarrow> string \<Rightarrow> string" where
  "py_strip_chars s chars =
     rev (dropWhile (\<lambda>c. c \<in> set chars) (rev (dropWhile (\<lambda>c. c \<in> set chars) s)))"

text \<open>
  The class \<open>\w\<close> of \<open>re\<close> on a \<open>str\<close> pattern, for a code point below 256: the
  underscore and every character that \<open>str.isalnum\<close> accepts (ASCII letters and digits, the
  Latin-1 letters, superscript digits and vulgar fractions).
\<close>

definition py_isword :: "char \<Rightarrow> bool" where
  "py_isword c = (let n = of_char c :: nat in
     (48 \<le> n \<and> n \<le> 57) \<or> (65 \<le> n \<and> n \<le> 90) \<or> n = 95 \<or> (97 \<le> n \<and> n \<le> 122)
     \<or> n = 170 \<or> n = 178 \<or> n = 179 \<or> n = 181 \<or> n = 185 \<or> n = 186
     \<or> (188 \<le> n \<and> n \<le> 190) \<or> (192 \<le> n \<and> n \<le> 214) \<or> (216 \<le> n \<and> n \<le> 246)
     \<or> 248 \<le> n)"

text \<open>
  \<open>round(x / 2)\<close> for an integer \<open>x\<close>: Python 3 divides exactly and rounds a half to the
  even neighbour. (The quotient is a float: exact for \<open>\<bar>x\<bar> < 2 ^ 53\<close>.)
\<close>

definition round_half :: "int \<Rightarrow> int" where
  "round_half x = (if even x then x div 2 else if even (x div 2) then x div 2 else x div 2 + 1)"

section \<open>Trees of \<open>lxml.etree\<close>\<close>

text \<open>
  An element of \<open>lxml.etree\<close>: its local tag name, its attributes in order, its text, its
  child elements and its tail (the text after its end tag, which belongs to the element and
  moves with it). \<open>nid\<close> is the identity of the Python object: a node that some other
  object refers to carries a number, and a reference is that number. Comments and processing
  instructions are not modelled.
\<close>

datatype xml =
  Elem (nid: "nat option") (tag: string) (attrib: "(string \<times> string) list")
       (xtext: "string option") (children: "xml list") (xtail: "string option")

text \<open>
  The objects reachable from a variable: one tree, and the trees that were removed from it
  (an element removed from its parent is still an object, with everything below it).
\<close>

record document =
  root :: xml
  detached :: "xml list"

definition trees :: "document \<Rightarrow> xml list" where
  "trees d = root d # detached d"

definition or_empty :: "string option \<Rightarrow> string" where
  "or_empty s = (case s of None \<Rightarrow> [] | Some t \<Rightarrow> t)"

text \<open>The node a reference stands for.\<close>

fun find_node :: "nat \<Rightarrow> xml \<Rightarrow> xml option"
  and find_nodes :: "nat \<Rightarrow> xml list \<Rightarrow> xml option" where
  "find_node k (Elem i t a x cs y) =
     (if i = Some k then Some (Elem i t a x cs y) else find_nodes k cs)"
| "find_nodes k [] = None"
| "find_nodes k (c # cs) = (case find_node k c of Some n \<Rightarrow> Some n | None \<Rightarrow> find_nodes k cs)"

definition lookup :: "nat \<Rightarrow> document \<Rightarrow> xml option" where
  "lookup k d = find_nodes k (trees d)"

text \<open>\<open>element.getparent()\<close>.\<close>

fun parent_in :: "nat \<Rightarrow> xml \<Rightarrow> xml option"
  and parent_among :: "nat \<Rightarrow> xml list \<Rightarrow> xml option" where
  "parent_in k (Elem i t a x cs y) =
     (if Some k \<in> set (map nid cs) then Some (Elem i t a x cs y) else parent_among k cs)"
| "parent_among k [] = None"
| "parent_among k (c # cs) =
     (case parent_in k c of Some p \<Rightarrow> Some p | None \<Rightarrow> parent_among k cs)"

definition getparent :: "nat \<Rightarrow> document \<Rightarrow> xml option" where
  "getparent k d = parent_among k (trees d)"

text \<open>
  Assignments to a node and to its parent: \<open>f\<close> is applied to the node in place.
\<close>

fun map_node :: "nat \<Rightarrow> (xml \<Rightarrow> xml) \<Rightarrow> xml \<Rightarrow> xml" where
  "map_node k f (Elem i t a x cs y) =
     (if i = Some k then f (Elem i t a x cs y) else Elem i t a x (map (map_node k f) cs) y)"

fun map_parent :: "nat \<Rightarrow> (xml \<Rightarrow> xml) \<Rightarrow> xml \<Rightarrow> xml" where
  "map_parent k f (Elem i t a x cs y) =
     (if Some k \<in> set (map nid cs) then f (Elem i t a x cs y)
      else Elem i t a x (map (map_parent k f) cs) y)"

definition with_children :: "(xml list \<Rightarrow> xml list) \<Rightarrow> xml \<Rightarrow> xml" where
  "with_children g p = Elem (nid p) (tag p) (attrib p) (xtext p) (g (children p)) (xtail p)"

definition on_trees :: "(xml \<Rightarrow> xml) \<Rightarrow> document \<Rightarrow> document" where
  "on_trees g d = d\<lparr>root := g (root d), detached := map g (detached d)\<rparr>"

definition update_node :: "nat \<Rightarrow> (xml \<Rightarrow> xml) \<Rightarrow> document \<Rightarrow> document" where
  "update_node k f d = on_trees (map_node k f) d"

definition update_parent :: "nat \<Rightarrow> (xml \<Rightarrow> xml) \<Rightarrow> document \<Rightarrow> document" where
  "update_parent k f d = on_trees (map_parent k f) d"

text \<open>
  \<open>parent.remove(element)\<close>: the element leaves its parent's children, with its tail, and
  stays reachable through the references to it.
\<close>

fun remove_node :: "nat \<Rightarrow> xml \<Rightarrow> xml" where
  "remove_node k (Elem i t a x cs y) =
     Elem i t a x (map (remove_node k) (filter (\<lambda>c. nid c \<noteq> Some k) cs)) y"

definition remove_child :: "nat \<Rightarrow> document \<Rightarrow> document" where
  "remove_child k d =
     (case (getparent k d, lookup k d) of
        (Some p, Some n) \<Rightarrow>
          d\<lparr>root := remove_node k (root d),
            detached := map (remove_node k) (detached d) @ [n]\<rparr>
      | _ \<Rightarrow> d)"

text \<open>
  A tree put into a document by \<open>addnext\<close>, \<open>addprevious\<close> or \<open>append\<close> is made of objects
  that nothing else refers to: its nodes carry no number.
\<close>

fun anonymous :: "xml \<Rightarrow> xml" where
  "anonymous (Elem i t a x cs y) = Elem None t a x (map anonymous cs) y"

fun insert_after :: "nat \<Rightarrow> xml \<Rightarrow> xml list \<Rightarrow> xml list" where
  "insert_after k new [] = []"
| "insert_after k new (c # cs) =
     (if nid c = Some k then c # new # cs else c # insert_after k new cs)"

fun insert_before :: "nat \<Rightarrow> xml \<Rightarrow> xml list \<Rightarrow> xml list" where
  "insert_before k new [] = []"
| "insert_before k new (c # cs) =
     (if nid c = Some k then new # c # cs else c # insert_before k new cs)"

text \<open>
  \<open>element.addnext(new)\<close> and \<open>element.addprevious(new)\<close>. The root element of the document
  takes no element as a sibling (\<open>TypeError\<close>); an element that was removed from its parent
  has no parent to hold the sibling, which is linked beside it outside every tree.
\<close>

definition add_sibling ::
  "(nat \<Rightarrow> xml \<Rightarrow> xml list \<Rightarrow> xml list) \<Rightarrow> nat \<Rightarrow> xml \<Rightarrow> document \<Rightarrow> py_error + document" where
  "add_sibling ins k new d =
     (if nid (root d) = Some k then Inl TypeError
      else if getparent k d = None then Inr (d\<lparr>detached := ins k (anonymous new) (detached d)\<rparr>)
      else Inr (update_parent k (with_children (ins k (anonymous new))) d))"

definition addnext :: "nat \<Rightarrow> xml \<Rightarrow> document \<Rightarrow> py_error + document" where
  "addnext = add_sibling insert_after"

definition addprevious :: "nat \<Rightarrow> xml \<Rightarrow> document \<Rightarrow> py_error + document" where
  "addprevious = add_sibling insert_before"

text \<open>\<open>element.set(name, value)\<close>: an attribute keeps its place, a new one comes last.\<close>

fun set_attrib :: "string \<Rightarrow> string \<Rightarrow> (string \<times> string) list \<Rightarrow> (string \<times> string) list" where
  "set_attrib name v [] = [(name, v)]"
| "set_attrib name v ((n, w) # as) =
     (if n = name then (n, v) # as else (n, w) # set_attrib name v as)"

definition set_attr :: "string \<Rightarrow> string \<Rightarrow> xml \<Rightarrow> xml" where
  "set_attr name v e = Elem (nid e) (tag e) (set_attrib name v (attrib e)) (xtext e) (children e) (xtail e)"

definition set_text :: "string option \<Rightarrow> xml \<Rightarrow> xml" where
  "set_text s e = Elem (nid e) (tag e) (attrib e) s (children e) (xtail e)"

definition set_tail :: "string option \<Rightarrow> xml \<Rightarrow> xml" where
  "set_tail s e = Elem (nid e) (tag e) (attrib e) (xtext e) (children e) s"

definition append_child :: "xml \<Rightarrow> xml \<Rightarrow> xml" where
  "append_child c e = with_children (\<lambda>cs. cs @ [c]) e"

text \<open>
  \<open>element.itertext()\<close>: the text of the element, then for each child its own texts and
  its tail; the tail of the element itself is not part of it.
\<close>

fun itertext :: "xml \<Rightarrow> string list" where
  "itertext (Elem i t a x cs y) =
     (case x of None \<Rightarrow> [] | Some s \<Rightarrow> [s])
       @ concat (map (\<lambda>c. itertext c @ (case xtail c of None \<Rightarrow> [] | Some s \<Rightarrow> [s])) cs)"

text \<open>The descendants of an element in document order (the XPath \<open>.//*\<close>).\<close>

fun descendants :: "xml \<Rightarrow> xml list" where
  "descendants (Elem i t a x cs y) = concat (map (\<lambda>c. c # descendants c) cs)"

text \<open>
  \<open>copy.deepcopy(element)\<close>: new objects with the same content (the tail included). They
  are not nodes of the document, so they carry no number.
\<close>

definition deepcopy :: "xml \<Rightarrow> xml" where
  "deepcopy e = anonymous e"

section \<open>What the module imports\<close>

text \<open>
  \<open>re\<close>, \<open>json\<close>, \<open>lxml.etree\<close>, calibre's \<open>prepare_string_for_xml\<close> and the
  helpers of \<open>lib/utils.py\<close> are not among the source files. Each function below stands
  for one of them and is a parameter of the model; the theorems hold for every choice.

  \<^item> \<open>re_sub pattern repl s\<close> is \<open>re.sub(pattern, repl, s)\<close> with a string \<open>repl\<close>, and
    \<open>re_sub_fn pattern repl s\<close> is \<open>re.sub(pattern, lambda _: repl, s)\<close> (a pattern that
    \<open>re\<close> rejects is outside the model);
  \<^item> \<open>trim\<close>, \<open>uid\<close> and the namespace \<open>ns['x']\<close> are those of \<open>lib/utils.py\<close>;
  \<^item> \<open>xml_escape\<close> is \<open>prepare_string_for_xml\<close>;
  \<^item> \<open>tostring e\<close> is \<open>etree.tostring(e, encoding='utf-8', with_tail=False).decode('utf-8')\<close>,
    and \<open>parse_xml s\<close> is \<open>etree.XML(s)\<close>, \<open>None\<close> where it raises \<open>XMLSyntaxError\<close>;
  \<^item> \<open>json_dumps\<close> is \<open>json.dumps\<close> on a dictionary of attributes;
  \<^item> \<open>xpath_exists pattern e\<close> says whether \<open>e.xpath(pattern, namespaces=ns)\<close> is not empty.
\<close>

record lib =
  re_sub :: "string \<Rightarrow> string \<Rightarrow> string \<Rightarrow> string"
  re_sub_fn :: "string \<Rightarrow> string \<Rightarrow> string \<Rightarrow> string"
  trim :: "string \<Rightarrow> string"
  uid :: "string \<Rightarrow> string"
  ns_x :: string
  xml_escape :: "string \<Rightarrow> string"
  tostring :: "xml \<Rightarrow> string"
  parse_xml :: "string \<Rightarrow> xml option"
  json_dumps :: "(string \<times> string) list \<Rightarrow> string"
  xpath_exists :: "string \<Rightarrow> xml \<Rightarrow> bool"

section \<open>The elements: \<open>Element\<close> and its subclasses\<close>

text \<open>
  \<open>self.element\<close> by subclass: a \<open>PageElement\<close> refers to a node of the page, an
  \<open>SrtElement\<close> owns the list \<open>[number, time, content]\<close>, a \<open>PgnElement\<close> the list
  \<open>[original, translation]\<close>, a \<open>MetadataElement\<close> the \<open>content\<close> of a metadata item and a
  \<open>TocElement\<close> the \<open>title\<close> of a node of the table of contents.
\<close>

datatype payload =
  Page nat
| Srt string string string
| Pgn string "string option"
| Metadata string
| Toc string

record Element =
  element :: payload
  page_id :: "string option"
  ignored :: bool
  el_placeholder :: "(string \<times> string) option"
  reserve_elements :: "xml list"
  el_column_gap :: "(string \<times> int) option"

text \<open>\<open>Element.__init__\<close> and \<open>PageElement(element, page_id)\<close>.\<close>

definition new_element :: "payload \<Rightarrow> string option \<Rightarrow> Element" where
  "new_element e pid =
     \<lparr>element = e, page_id = pid, ignored = False, el_placeholder = None,
      reserve_elements = [], el_column_gap = None\<rparr>"

definition PageElement :: "xml \<Rightarrow> string option \<Rightarrow> py_error + Element" where
  "PageElement node pid =
     (case nid node of None \<Rightarrow> Inl AttributeError | Some k \<Rightarrow> Inr (new_element (Page k) pid))"

definition set_ignored :: "bool \<Rightarrow> Element \<Rightarrow> Element" where
  "set_ignored b e = e\<lparr>ignored := b\<rparr>"

definition set_placeholder :: "string \<times> string \<Rightarrow> Element \<Rightarrow> Element" where
  "set_placeholder ph e = e\<lparr>el_placeholder := Some ph\<rparr>"

definition set_column_gap :: "string \<times> int \<Rightarrow> Element \<Rightarrow> Element" where
  "set_column_gap values e = e\<lparr>el_column_gap := Some values\<rparr>"

subsection \<open>\<open>get_string\<close>, \<open>get_raw\<close>, \<open>get_text\<close>, \<open>get_attributes\<close>\<close>

definition xmlns_pattern :: string where
  "xmlns_pattern = BS # ''sxmlns([^'' @ DQ # '']+'' @ DQ # ''){2}''"

text \<open>\<open>get_string(element, remove_ns)\<close> on a node held by value.\<close>

definition get_string :: "lib \<Rightarrow> xml \<Rightarrow> bool \<Rightarrow> string" where
  "get_string L e remove_ns =
     (let markup = trim L (tostring L (set_text (Some (or_empty (xtext e))) e))
      in if remove_ns then re_sub L xmlns_pattern [] markup else markup)"

text \<open>
  \<open>get_raw\<close>. For a page element, \<open>get_string\<close> first writes the text of the node
  (\<open>element.text = element.text or ''\<close>), so the document is returned too.
\<close>

definition get_raw :: "lib \<Rightarrow> Element \<Rightarrow> document \<Rightarrow> py_error + (string \<times> document)" where
  "get_raw L e d =
     (case element e of
        Page k \<Rightarrow>
          (case lookup k d of
             None \<Rightarrow> Inl AttributeError
           | Some n \<Rightarrow>
               Inr (get_string L n True,
                    update_node k (set_text (Some (or_empty (xtext n)))) d))
      | Srt number time content \<Rightarrow> Inr (content, d)
      | Pgn orig tr \<Rightarrow> Inr (orig, d)
      | Metadata content \<Rightarrow> Inr (content, d)
      | Toc title \<Rightarrow> Inr (title, d))"

definition get_text :: "lib \<Rightarrow> Element \<Rightarrow> document \<Rightarrow> py_error + string" where
  "get_text L e d =
     (case element e of
        Page k \<Rightarrow>
          (case lookup k d of
             None \<Rightarrow> Inl AttributeError
           | Some n \<Rightarrow> Inr (trim L (concat (itertext n))))
      | Srt number time content \<Rightarrow> Inr content
      | Pgn orig tr \<Rightarrow> Inr (py_strip_chars orig ''{}'')
      | Metadata content \<Rightarrow> Inr content
      | Toc title \<Rightarrow> Inr title)"

definition get_attributes :: "lib \<Rightarrow> Element \<Rightarrow> document \<Rightarrow> py_error + string option" where
  "get_attributes L e d =
     (case element e of
        Page k \<Rightarrow>
          (case lookup k d of
             None \<Rightarrow> Inl AttributeError
           | Some n \<Rightarrow> Inr (if attrib n \<noteq> [] then Some (json_dumps L (attrib n)) else None))
      | _ \<Rightarrow> Inr None)"

subsection \<open>\<open>PageElement.get_content\<close>\<close>

definition noise_tags :: "string list" where
  "noise_tags = [''rt'', ''rp'', ''sup'', ''sub'']"

definition reserve_tags :: "string list" where
  "reserve_tags = [''img'', ''code'', ''br'', ''hr'', ''sub'', ''sup'', ''kbd'']"

text \<open>
  Lines 192--196. The loop visits, in document order, the descendants of the copy whose tag
  is a noise tag; for each one the tail is added to the text of its parent and the node is
  removed from its parent. The model walks the copy in document order: \<open>remove_noise x kept cs\<close>
  is the loop on the children \<open>cs\<close> that are left to visit of one parent, whose text is
  \<open>x\<close> and whose children visited and kept are \<open>kept\<close>. (A removed node is not walked: the
  loop still visits the noise nodes inside it, and changes only that removed node.)
\<close>

fun remove_noise :: "string option \<Rightarrow> xml list \<Rightarrow> xml list \<Rightarrow> string option \<times> xml list"
  and without_noise :: "xml \<Rightarrow> xml" where
  "remove_noise x kept [] = (x, kept)"
| "remove_noise x kept (noise # cs) =
     (if tag noise \<in> set noise_tags
      then remove_noise (Some (or_empty x @ or_empty (xtail noise))) kept cs
      else remove_noise x (kept @ [without_noise noise]) cs)"
| "without_noise (Elem i t a x cs y) =
     (case remove_noise x [] cs of (x', cs') \<Rightarrow> Elem i t a x' cs' y)"

text \<open>
  Lines 198--212. The loop visits, in document order, the descendants of the copy whose tag
  is a reserve tag, with \<open>count\<close> from 0: the placeholder of \<open>count\<close>, then the tail of the
  node, is added to the tail of the sibling before the node, or to the text of the parent
  when there is none; the node loses its tail and is removed from its parent. The nodes
  inside a removed node are visited next, and change that node, which
  \<open>self.reserve_elements\<close> refers to. The model walks the copy in document order:
  \<open>replace_reserve ph count x kept cs\<close> is the loop on the children \<open>cs\<close> that are left to visit
  of one parent, whose text is \<open>x\<close> and whose children visited and kept are \<open>kept\<close>; it
  returns the text and the children of the parent, the nodes of \<open>self.reserve_elements\<close> met
  on the way as the loop leaves them, and the next \<open>count\<close>.
\<close>

fun replace_reserve ::
  "(string \<times> string) option \<Rightarrow> nat \<Rightarrow> string option \<Rightarrow> xml list \<Rightarrow> xml list
     \<Rightarrow> py_error + (string option \<times> xml list \<times> xml list \<times> nat)"
  and with_placeholders ::
  "(string \<times> string) option \<Rightarrow> nat \<Rightarrow> xml \<Rightarrow> py_error + (xml \<times> xml list \<times> nat)" where
  "replace_reserve ph count x kept [] = Inr (x, kept, [], count)"
| "replace_reserve ph count x kept (reserve # cs) =
     (if tag reserve \<in> set reserve_tags then
        (case ph of
           None \<Rightarrow> Inl TypeError
         | Some p \<Rightarrow>
            (case py_format (fst p) (format_05 count) of
               Inl err \<Rightarrow> Inl err
             | Inr replacement \<Rightarrow>
                (case with_placeholders ph (Suc count) reserve of
                   Inl err \<Rightarrow> Inl err
                 | Inr (removed, inner, count') \<Rightarrow>
                    (case (if kept = []
                           then replace_reserve ph count'
                                  (Some (or_empty x @ replacement @ or_empty (xtail reserve)))
                                  kept cs
                           else replace_reserve ph count' x
                                  (butlast kept
                                     @ [set_tail (Some (or_empty (xtail (last kept)) @ replacement
                                                          @ or_empty (xtail reserve)))
                                          (last kept)])
                                  cs) of
                       Inl err \<Rightarrow> Inl err
                     | Inr (x', cs', rs, n) \<Rightarrow>
                        Inr (x', cs', set_tail None removed # inner @ rs, n)))))
      else
        (case with_placeholders ph count reserve of
           Inl err \<Rightarrow> Inl err
         | Inr (child, inner, count') \<Rightarrow>
            (case replace_reserve ph count' x (kept @ [child]) cs of
               Inl err \<Rightarrow> Inl err
             | Inr (x', cs', rs, n) \<Rightarrow> Inr (x', cs', inner @ rs, n))))"
| "with_placeholders ph count (Elem i t a x cs y) =
     (case replace_reserve ph count x [] cs of
        Inl err \<Rightarrow> Inl err
      | Inr (x', cs', rs, n) \<Rightarrow> Inr (Elem i t a x' cs' y, rs, n))"

text \<open>
  \<open>get_content\<close> of a page element on the node \<open>n\<close> it refers to: the text sent to the
  translator and the new value of \<open>self.reserve_elements\<close>.
\<close>

definition page_content ::
  "lib \<Rightarrow> (string \<times> string) option \<Rightarrow> xml \<Rightarrow> py_error + (string \<times> xml list)" where
  "page_content L ph n =
     (let element_copy = without_noise (deepcopy n) in
      and_then (with_placeholders ph 0 element_copy)
        (\<lambda>(element_copy, reserve, count).
           Inr (trim L (concat (itertext element_copy)), reserve)))"

definition get_content :: "lib \<Rightarrow> Element \<Rightarrow> document \<Rightarrow> py_error + (string \<times> Element)" where
  "get_content L e d =
     (case element e of
        Page k \<Rightarrow>
          (case lookup k d of
             None \<Rightarrow> Inl AttributeError
           | Some n \<Rightarrow>
               and_then (page_content L (el_placeholder e) n)
                 (\<lambda>(content, reserve). Inr (content, e\<lparr>reserve_elements := reserve\<rparr>)))
      | Srt number time content \<Rightarrow> Inr (content, e)
      | Pgn orig tr \<Rightarrow> Inr (py_strip_chars orig ''{}'', e)
      | Metadata content \<Rightarrow> Inr (content, e)
      | Toc title \<Rightarrow> Inr (title, e))"

subsection \<open>\<open>PageElement._polish_translation\<close>\<close>

text \<open>
  \<open>re.sub(r'((\w)\2{3})\2*', r'\1', s)\<close>, read from the left: where a word character
  is followed by three more of itself, the match takes every further copy and is replaced
  by the first four; elsewhere the character is kept and the scan moves on by one.
\<close>

function condense :: "string \<Rightarrow> string" where
  "condense [] = []"
| "condense (c # s) =
     (if py_isword c \<and> take 3 s = replicate 3 c
      then replicate 4 c @ condense (dropWhile (\<lambda>d. d = c) (drop 3 s))
      else c # condense s)"
  by pat_completeness auto
termination
  by (relation "measure length") (auto simp: less_Suc_eq_le intro: le_trans [OF length_dropWhile_le])

declare condense.simps(2) [simp del]

definition polish_translation :: "string \<Rightarrow> string" where
  "polish_translation translation = condense (py_replace translation [NL] ''<br />'')"

subsection \<open>\<open>PageElement._create_table\<close>\<close>

text \<open>\<open>'%s%%' % n\<close> for an integer \<open>n\<close>.\<close>

definition percent :: "int \<Rightarrow> string" where
  "percent n = str_int n @ ''%''"

definition create_table ::
  "(string \<times> int) option \<Rightarrow> string \<Rightarrow> xml \<Rightarrow> xml option \<Rightarrow> xml" where
  "create_table column_gap pos orig translation =
     (let td_left = Elem None ''td'' [(''valign'', ''top'')] None [] None;
          td_middle = Elem None ''td'' [] None [] None;
          td_right = Elem None ''td'' [(''valign'', ''top'')] None [] None;
          (td_left, td_middle, td_right) =
            (case column_gap of
               None \<Rightarrow>
                 (set_attr ''width'' ''45%'' td_left, set_attr ''width'' ''10%'' td_middle,
                  set_attr ''width'' ''45%'' td_right)
             | Some (unit, v) \<Rightarrow>
                 if unit = ''percentage'' then
                   (let width = percent (round_half (100 - v)) in
                    (set_attr ''width'' width td_left, set_attr ''width'' (percent v) td_middle,
                     set_attr ''width'' width td_right))
                 else
                   (set_attr ''width'' ''50%'' td_left,
                    set_text (Some (replicate (nat v) NBSP)) td_middle,
                    set_attr ''width'' ''50%'' td_right));
          (td_left, td_right) =
            (if pos = ''left'' then
               ((case translation of None \<Rightarrow> td_left | Some t \<Rightarrow> append_child t td_left),
                append_child orig td_right)
             else (td_left, td_right));
          (td_left, td_right) =
            (if pos = ''right'' then
               (append_child orig td_left,
                (case translation of None \<Rightarrow> td_right | Some t \<Rightarrow> append_child t td_right))
             else (td_left, td_right))
      in Elem None ''table'' [(''width'', ''100%'')] None
           [Elem None ''tr'' [] None [td_left, td_middle, td_right] None] None)"

subsection \<open>\<open>delete\<close> and \<open>add_translation\<close>\<close>

text \<open>\<open>PageElement.delete\<close>: \<open>self.element.getparent().remove(self.element)\<close>.\<close>

definition delete :: "nat \<Rightarrow> document \<Rightarrow> py_error + document" where
  "delete k d = (case getparent k d of None \<Rightarrow> Inl AttributeError | Some p \<Rightarrow> Inr (remove_child k d))"

text \<open>Lines 236--242: the placeholders of \<open>translation\<close> replaced by the reserved nodes.\<close>

fun restore_reserved ::
  "lib \<Rightarrow> (string \<times> string) option \<Rightarrow> nat \<Rightarrow> xml list \<Rightarrow> string \<Rightarrow> py_error + string" where
  "restore_reserved L ph rid [] translation = Inr translation"
| "restore_reserved L ph rid (reserve # rs) translation =
     (case ph of
        None \<Rightarrow> Inl TypeError
      | Some p \<Rightarrow>
          and_then (py_format (snd p) (py_join (BS # ''s*'') (map (\<lambda>c. [c]) (format_05 rid))))
            (\<lambda>pattern.
               restore_reserved L ph (Suc rid) rs
                 (re_sub_fn L (xml_escape L pattern) (get_string L reserve False) translation)))"

text \<open>Lines 235--243: the translation escaped, its placeholders replaced, the result polished.\<close>

definition decode_translation :: "lib \<Rightarrow> Element \<Rightarrow> string \<Rightarrow> py_error + string" where
  "decode_translation L e translation =
     and_then (restore_reserved L (el_placeholder e) 0 (reserve_elements e) (xml_escape L translation))
       (\<lambda>translation. Inr (polish_translation translation))"

text \<open>Lines 252--257: the attributes of the original element given to the new one.\<close>

fun copy_attributes :: "string \<Rightarrow> (string \<times> string) list \<Rightarrow> xml \<Rightarrow> xml" where
  "copy_attributes pos [] new = new"
| "copy_attributes pos ((name, v) # items) new =
     (if name = ''id'' \<and> pos \<noteq> ''only'' then copy_attributes pos items new
      else copy_attributes pos items (set_attr name (if name = ''dir'' then ''auto'' else v) new))"

text \<open>Lines 224--225: the colour of the original, when one is given.\<close>

definition color_original :: "nat \<Rightarrow> string option \<Rightarrow> document \<Rightarrow> document" where
  "color_original k original_color d =
     (case original_color of
        None \<Rightarrow> d
      | Some c \<Rightarrow> update_node k (set_attr ''style'' (''color:'' @ c)) d)"

text \<open>\<open>PageElement.add_translation\<close> for the element that refers to node \<open>k\<close>.\<close>

definition page_add_translation ::
  "lib \<Rightarrow> Element \<Rightarrow> nat \<Rightarrow> string option \<Rightarrow> string \<Rightarrow> string option \<Rightarrow> string option
     \<Rightarrow> string option \<Rightarrow> document \<Rightarrow> py_error + document" where
  "page_add_translation L e k translation pos translation_lang original_color translation_color d0 =
     (let d = color_original k original_color d0
      in case lookup k d of
        None \<Rightarrow> Inl AttributeError
      | Some self_element \<Rightarrow>
         (case translation of
            None \<Rightarrow>
              and_then
                (if pos \<in> set [''left'', ''right''] then
                   addnext k (create_table (el_column_gap e) pos (deepcopy self_element) None) d
                 else Inr d)
                (\<lambda>d. if pos \<in> set [''left'', ''right''] then delete k d else Inr d)
          | Some t \<Rightarrow>
              and_then (decode_translation L e t)
                (\<lambda>t.
                  case parse_xml L (''<'' @ tag self_element @ '' xmlns='' @ DQ # ns_x L @ DQ # ''>''
                                     @ trim L t @ ''</'' @ tag self_element @ ''>'') of
                    None \<Rightarrow> Inl XMLSyntaxError
                  | Some parsed \<Rightarrow>
                     (let new = copy_attributes pos (attrib self_element) parsed;
                          new = (case translation_lang of
                                   None \<Rightarrow> new | Some l \<Rightarrow> set_attr ''lang'' l new);
                          new = (case translation_color of
                                   None \<Rightarrow> new | Some c \<Rightarrow> set_attr ''style'' (''color:'' @ c) new);
                          d = update_node k (set_tail None) d
                      in and_then
                           (if pos \<in> set [''left'', ''right''] then
                              (case lookup k d of
                                 None \<Rightarrow> Inl AttributeError
                               | Some cur \<Rightarrow>
                                   addnext k (create_table (el_column_gap e) pos
                                                (deepcopy cur) (Some new)) d)
                            else if pos = ''above'' then addprevious k new d
                            else addnext k new d)
                           (\<lambda>d. if pos \<in> set [''left'', ''right'', ''only''] then delete k d
                                else Inr d)))))"

text \<open>
  \<open>add_translation\<close> by subclass. Only a page element changes the document; the others
  change what they own, so the element is returned as well.
\<close>

definition add_translation ::
  "lib \<Rightarrow> Element \<Rightarrow> string option \<Rightarrow> string \<Rightarrow> string option \<Rightarrow> string option
     \<Rightarrow> string option \<Rightarrow> document \<Rightarrow> py_error + (Element \<times> document)" where
  "add_translation L e translation pos translation_lang original_color translation_color d =
     (case element e of
        Page k \<Rightarrow>
          and_then (page_add_translation L e k translation pos translation_lang
                      original_color translation_color d)
            (\<lambda>d'. Inr (e, d'))
      | Srt number time content \<Rightarrow>
          (case translation of
             None \<Rightarrow> Inr (e, d)
           | Some t \<Rightarrow>
               Inr (e\<lparr>element :=
                        Srt number time
                          (if pos = ''only'' then t
                           else if pos \<in> set [''below'', ''right''] then content @ [NL] @ t
                           else t @ [NL] @ content)\<rparr>, d))
      | Pgn orig slot \<Rightarrow>
          (case translation of
             None \<Rightarrow> Inr (e, d)
           | Some t \<Rightarrow>
               Inr (e\<lparr>element :=
                        Pgn orig
                          (Some (if pos = ''only'' then t
                                 else if pos \<notin> set [''below'', ''right'']
                                   then py_join '' | '' (rev [py_strip_chars orig ''{}'', t])
                                 else py_join '' | '' [py_strip_chars orig ''{}'', t]))\<rparr>, d))
      | Metadata content \<Rightarrow>
          (case translation of
             None \<Rightarrow> Inr (e, d)
           | Some t \<Rightarrow>
               Inr (e\<lparr>element :=
                        Metadata
                          (if pos = ''only'' then t
                           else if pos \<in> set [''above'', ''left''] then t @ '' '' @ content
                           else content @ '' '' @ t)\<rparr>, d))
      | Toc title \<Rightarrow>
          (case translation of
             None \<Rightarrow> Inr (e, d)
           | Some t \<Rightarrow>
               Inr (e\<lparr>element :=
                        Toc (if pos = ''only'' then t
                             else py_join '' '' (if pos \<in> set [''above'', ''left'']
                                                 then rev [title, t] else [title, t]))\<rparr>, d)))"

section \<open>\<open>Extraction\<close>\<close>

text \<open>
  Of an \<open>Extraction\<close>, \<open>extract_elements\<close> reads \<open>element_patterns\<close>, the XPath patterns that
  \<open>load_element_patterns\<close> compiled.
\<close>

record Extraction =
  element_patterns :: "string list"

definition need_ignore :: "lib \<Rightarrow> Extraction \<Rightarrow> xml \<Rightarrow> bool" where
  "need_ignore L X e = list_ex (\<lambda>pattern. xpath_exists L pattern e) (element_patterns X)"

definition priority_elements :: "string list" where
  "priority_elements = [''p'', ''pre'', ''h1'', ''h2'', ''h3'', ''h4'', ''h5'', ''h6'']"

definition nonblank :: "lib \<Rightarrow> string option \<Rightarrow> bool" where
  "nonblank L s = (case s of None \<Rightarrow> False | Some t \<Rightarrow> trim L t \<noteq> [])"

text \<open>Lines 378--389: the value of \<open>element_has_content\<close> for a child \<open>element\<close> of the root.\<close>

definition element_has_content :: "lib \<Rightarrow> xml \<Rightarrow> bool" where
  "element_has_content L e =
     (if nonblank L (xtext e) then True
      else if children e \<noteq> [] \<and> tag e \<in> set priority_elements then True
      else list_ex (\<lambda>child. nonblank L (xtail child)) (children e))"

text \<open>
  \<open>extract_elements(page_id, root, elements)\<close> returns a list and appends to \<open>elements\<close>:
  the result is the pair of the returned list and of \<open>elements\<close> as the call leaves it.
  \<open>extract_children\<close> is the loop over \<open>root.findall('./*')\<close>; the call in the loop drops
  the returned list and keeps \<open>elements\<close>.
\<close>

fun extract_elements ::
  "lib \<Rightarrow> Extraction \<Rightarrow> string option \<Rightarrow> xml \<Rightarrow> Element list
     \<Rightarrow> py_error + (Element list \<times> Element list)"
  and extract_children ::
  "lib \<Rightarrow> Extraction \<Rightarrow> string option \<Rightarrow> xml list \<Rightarrow> Element list
     \<Rightarrow> py_error + Element list" where
  "extract_elements L X pid (Elem i t a x cs y) elements =
     (case extract_children L X pid cs elements of
        Inl err \<Rightarrow> Inl err
      | Inr elements' \<Rightarrow>
          (case PageElement (Elem i t a x cs y) pid of
             Inl err \<Rightarrow> Inl err
           | Inr page_element \<Rightarrow>
               (let page_element = set_ignored (need_ignore L X (Elem i t a x cs y)) page_element
                in Inr (if elements' \<noteq> [] then elements' else [page_element], elements'))))"
| "extract_children L X pid [] elements = Inr elements"
| "extract_children L X pid (c # cs) elements =
     (if element_has_content L c then
        (case PageElement c pid of
           Inl err \<Rightarrow> Inl err
         | Inr page_element \<Rightarrow>
             extract_children L X pid cs
               (elements @ [set_ignored (need_ignore L X c) page_element]))
      else
        (case extract_elements L X pid c elements of
           Inl err \<Rightarrow> Inl err
         | Inr (returned, elements') \<Rightarrow> extract_children L X pid cs elements'))"

text \<open>Line 364, in \<open>get_elements\<close>: the call for the body of one page.\<close>

definition extract_page ::
  "lib \<Rightarrow> Extraction \<Rightarrow> string option \<Rightarrow> xml \<Rightarrow> py_error + Element list" where
  "extract_page L X pid body = map_sum id fst (extract_elements L X pid body [])"

section \<open>\<open>ElementHandler\<close> and \<open>ElementHandlerMerge\<close>\<close>

text \<open>
  A record of \<open>self.originals\<close>: \<open>(oid, md5, raw, content, ignored, attrs, page_id)\<close> in
  \<open>ElementHandler\<close>, \<open>(oid, md5, raw, txt, False)\<close> in \<open>ElementHandlerMerge\<close>.
\<close>

datatype original_record =
  Original nat string string string bool "string option" "string option"
| Merged nat string string string bool

fun o_raw :: "original_record \<Rightarrow> string" where
  "o_raw (Original oid md5 raw content ign attrs pid) = raw"
| "o_raw (Merged oid md5 raw txt ign) = raw"

fun o_txt :: "original_record \<Rightarrow> string" where
  "o_txt (Original oid md5 raw content ign attrs pid) = content"
| "o_txt (Merged oid md5 raw txt ign) = txt"

text \<open>
  The fields of a handler. \<open>elements\<close> is a dictionary in insertion order, from a key to a
  reference to an \<open>Element\<close> object.
\<close>

record ElementHandler =
  placeholder :: "string \<times> string"
  separator :: string
  position :: string
  merge_length :: int
  translation_lang :: "string option"
  original_color :: "string option"
  translation_color :: "string option"
  column_gap :: "(string \<times> int) option"
  elements :: "(nat \<times> nat) list"
  originals :: "original_record list"

text \<open>\<open>ElementHandler.__init__(placeholder, separator, position, merge_length)\<close>.\<close>

definition new_handler :: "string \<times> string \<Rightarrow> string \<Rightarrow> string \<Rightarrow> int \<Rightarrow> ElementHandler" where
  "new_handler ph sep pos ml =
     \<lparr>placeholder = ph, separator = sep, position = pos, merge_length = ml,
      translation_lang = None, original_color = None, translation_color = None,
      column_gap = None, elements = [], originals = []\<rparr>"

text \<open>\<open>d[key] = v\<close> and \<open>d.pop(key)\<close> on a dictionary in insertion order.\<close>

fun dict_set :: "nat \<Rightarrow> 'v \<Rightarrow> (nat \<times> 'v) list \<Rightarrow> (nat \<times> 'v) list" where
  "dict_set key v [] = [(key, v)]"
| "dict_set key v ((k, w) # kvs) =
     (if k = key then (k, v) # kvs else (k, w) # dict_set key v kvs)"

definition dict_pop :: "nat \<Rightarrow> (nat \<times> 'v) list \<Rightarrow> (nat \<times> 'v) list" where
  "dict_pop key kvs = filter (\<lambda>(k, v). k \<noteq> key) kvs"

text \<open>
  The state outside the handler: the document the page elements refer to, and the \<open>Element\<close>
  objects (a reference to an element is its index in \<open>heap\<close>).
\<close>

record world =
  doc :: document
  heap :: "Element list"

definition deref :: "nat \<Rightarrow> world \<Rightarrow> py_error + Element" where
  "deref r w = (if r < length (heap w) then Inr (heap w ! r) else Inl AttributeError)"

definition store :: "nat \<Rightarrow> Element \<Rightarrow> world \<Rightarrow> world" where
  "store r e w = w\<lparr>heap := (heap w)[r := e]\<rparr>"

text \<open>
  Lines 454--460 and 503--507, common to both handlers: the placeholder and the column gap
  are set on the element, then its raw markup and its content are read.
\<close>

definition read_element ::
  "lib \<Rightarrow> ElementHandler \<Rightarrow> nat \<Rightarrow> world \<Rightarrow> py_error + (string \<times> string \<times> Element \<times> world)" where
  "read_element L h r w =
     and_then (deref r w) (\<lambda>e.
       let e = set_placeholder (placeholder h) e;
           e = (case column_gap h of None \<Rightarrow> e | Some g \<Rightarrow> set_column_gap g e)
       in and_then (get_raw L e (doc w)) (\<lambda>(raw, d).
            and_then (get_content L e d) (\<lambda>(content, e).
              Inr (raw, content, e, store r e (w\<lparr>doc := d\<rparr>)))))"

subsection \<open>\<open>ElementHandler.prepare_original\<close>\<close>

fun prepare_from ::
  "lib \<Rightarrow> nat list \<Rightarrow> nat \<Rightarrow> nat \<Rightarrow> ElementHandler \<Rightarrow> world
     \<Rightarrow> py_error + (ElementHandler \<times> world)" where
  "prepare_from L [] oid count h w = Inr (h, w)"
| "prepare_from L (r # rs) oid count h w =
     (case read_element L h r w of
        Inl err \<Rightarrow> Inl err
      | Inr (raw, content, e, w) \<Rightarrow>
          (let md5 = uid L (str_nat oid @ content) in
           case get_attributes L e (doc w) of
             Inl err \<Rightarrow> Inl err
           | Inr attrs \<Rightarrow>
               (let h = (if \<not> ignored e then h\<lparr>elements := dict_set count r (elements h)\<rparr> else h);
                    count = (if \<not> ignored e then Suc count else count);
                    h = h\<lparr>originals := originals h
                            @ [Original oid md5 raw content (ignored e) attrs (page_id e)]\<rparr>
                in prepare_from L rs (Suc oid) count h w)))"

definition prepare_original ::
  "lib \<Rightarrow> ElementHandler \<Rightarrow> nat list \<Rightarrow> world
     \<Rightarrow> py_error + (original_record list \<times> ElementHandler \<times> world)" where
  "prepare_original L h els w =
     and_then (prepare_from L els 0 0 h w) (\<lambda>(h, w). Inr (originals h, h, w))"

subsection \<open>\<open>ElementHandlerMerge.prepare_original\<close>\<close>

text \<open>The loop of lines 499--518 from element number \<open>eid\<close> on, with its variables.\<close>

fun merge_from ::
  "lib \<Rightarrow> nat list \<Rightarrow> nat \<Rightarrow> string \<Rightarrow> string \<Rightarrow> nat \<Rightarrow> ElementHandler \<Rightarrow> world
     \<Rightarrow> py_error + (string \<times> string \<times> nat \<times> ElementHandler \<times> world)" where
  "merge_from L [] eid raw txt oid h w = Inr (raw, txt, oid, h, w)"
| "merge_from L (r # rs) eid raw txt oid h w =
     (case deref r w of
        Inl err \<Rightarrow> Inl err
      | Inr e0 \<Rightarrow>
          (let h = h\<lparr>elements := dict_set eid r (elements h)\<rparr> in
           if ignored e0 then merge_from L rs (Suc eid) raw txt oid h w
           else
             (case read_element L h r w of
                Inl err \<Rightarrow> Inl err
              | Inr (code, content, e, w) \<Rightarrow>
                  (let content = content @ separator h in
                   if int (length (txt @ content)) < merge_length h then
                     merge_from L rs (Suc eid) (raw @ code @ separator h) (txt @ content) oid h w
                   else if txt \<noteq> [] then
                     (let md5 = uid L (str_nat oid @ txt);
                          h = h\<lparr>originals := originals h @ [Merged oid md5 raw txt False]\<rparr>
                      in merge_from L rs (Suc eid) code content (Suc oid) h w)
                   else merge_from L rs (Suc eid) code content oid h w))))"

text \<open>Lines 519--521: the last batch, if it is not empty, becomes a record.\<close>

definition flush_last ::
  "lib \<Rightarrow> string \<Rightarrow> string \<Rightarrow> nat \<Rightarrow> ElementHandler \<Rightarrow> world
     \<Rightarrow> py_error + (original_record list \<times> ElementHandler \<times> world)" where
  "flush_last L raw txt oid h w =
     (let md5 = uid L (str_nat oid @ txt);
          h = (if txt \<noteq> [] then h\<lparr>originals := originals h @ [Merged oid md5 raw txt False]\<rparr>
               else h)
      in Inr (originals h, h, w))"

definition merge_prepare_original ::
  "lib \<Rightarrow> ElementHandler \<Rightarrow> nat list \<Rightarrow> world
     \<Rightarrow> py_error + (original_record list \<times> ElementHandler \<times> world)" where
  "merge_prepare_original L h els w =
     and_then (merge_from L els 0 [] [] 0 h w)
       (\<lambda>(raw, txt, oid, h, w). flush_last L raw txt oid h w)"

subsection \<open>\<open>ElementHandlerMerge.align_paragraph\<close>\<close>

text \<open>A \<open>Paragraph\<close> of the cache, as far as the handlers read and write it.\<close>

record Paragraph =
  original :: string
  translation :: "string option"

definition index_pattern :: string where
  "index_pattern = ''(0|[^0]'' @ BS # ''d*)''"

text \<open>Lines 525--532: the placeholder used as a separator is rewritten to the separator.\<close>

definition normalize_separator ::
  "lib \<Rightarrow> ElementHandler \<Rightarrow> Paragraph \<Rightarrow> py_error + Paragraph" where
  "normalize_separator L h p =
     (if slice_from (original p) (-2) \<noteq> separator h then
        and_then (py_format (snd (placeholder h)) index_pattern) (\<lambda>body.
          let pattern = BS # ''s*'' @ body @ BS # ''s*'' in
          Inr (p\<lparr>original := re_sub L pattern (separator h) (original p),
                  translation := map_option (re_sub L pattern (separator h)) (translation p)\<rparr>))
      else Inr p)"

text \<open>Lines 540--555: the translated segments made as many as the original ones.\<close>

definition fit_translations :: "string \<Rightarrow> nat \<Rightarrow> string list \<Rightarrow> string option list" where
  "fit_translations pos m translations =
     (let offset = int m - int (length translations) in
      if offset > 0 then
        (if pos \<in> set [''left'', ''right''] then
           map Some translations @ replicate (nat offset) None
         else
           (let merged_translations = py_join [NL, NL] translations;
                nones = replicate (m - 1) None
            in if pos \<in> set [''above''] then Some merged_translations # nones
               else nones @ [Some merged_translations]))
      else if offset < 0 then
        (let offset = int m - 1 in
         map Some (slice_to translations offset)
           @ [Some (py_join [NL, NL] (slice_from translations offset))])
      else map Some translations)"

text \<open>
  \<open>align_paragraph\<close> returns the list of pairs; it also assigns to the paragraph, which is
  returned as the call leaves it.
\<close>

definition align_paragraph ::
  "lib \<Rightarrow> ElementHandler \<Rightarrow> Paragraph
     \<Rightarrow> py_error + (Paragraph \<times> (string \<times> string option) list)" where
  "align_paragraph L h p0 =
     and_then (normalize_separator L h p0) (\<lambda>p.
       and_then (py_split (py_strip (original p)) (separator h)) (\<lambda>originals.
         case translation p of
           None \<Rightarrow> Inr (p, zip originals (replicate (length originals) None))
         | Some t \<Rightarrow>
             (let translation = re_sub L (separator h @ ''+'') (separator h) t in
              and_then (py_split (py_strip translation) (separator h)) (\<lambda>translations.
                Inr (p, zip originals
                          (fit_translations (position h) (length originals) translations))))))"



subsection \<open>\<open>prepare_translation\<close> and \<open>add_translations\<close>\<close>

text \<open>
  The dictionary \<open>translations\<close>: \<open>translations.get(original)\<close> is \<open>None\<close> for a text that
  is no key and for a key whose value is \<open>None\<close>, so the dictionary is the function that
  \<open>get\<close> computes.
\<close>

type_synonym translation_dict = "string \<Rightarrow> string option"

fun prepare_translation :: "Paragraph list \<Rightarrow> translation_dict \<Rightarrow> translation_dict" where
  "prepare_translation [] tr = tr"
| "prepare_translation (p # ps) tr = prepare_translation ps (tr(original p := translation p))"

fun dict_of :: "(string \<times> string option) list \<Rightarrow> translation_dict \<Rightarrow> translation_dict" where
  "dict_of [] tr = tr"
| "dict_of ((k, v) # kvs) tr = dict_of kvs (tr(k := v))"

text \<open>
  \<open>ElementHandlerMerge.prepare_translation\<close>: the pairs of every paragraph, in order, then
  \<open>dict(translations)\<close>. The paragraphs are returned as \<open>align_paragraph\<close> leaves them.
\<close>

fun align_all ::
  "lib \<Rightarrow> ElementHandler \<Rightarrow> Paragraph list
     \<Rightarrow> py_error + (Paragraph list \<times> (string \<times> string option) list)" where
  "align_all L h [] = Inr ([], [])"
| "align_all L h (p # ps) =
     (case align_paragraph L h p of
        Inl err \<Rightarrow> Inl err
      | Inr (p', pairs) \<Rightarrow>
          (case align_all L h ps of
             Inl err \<Rightarrow> Inl err
           | Inr (ps', rest) \<Rightarrow> Inr (p' # ps', pairs @ rest)))"

definition merge_prepare_translation ::
  "lib \<Rightarrow> ElementHandler \<Rightarrow> Paragraph list \<Rightarrow> py_error + (Paragraph list \<times> translation_dict)" where
  "merge_prepare_translation L h ps =
     and_then (align_all L h ps) (\<lambda>(ps', pairs). Inr (ps', dict_of pairs (\<lambda>k. None)))"

text \<open>
  Lines 477--491: the loop over \<open>self.elements.copy().items()\<close>, for the items that are
  left to visit.
\<close>

fun apply_translations ::
  "lib \<Rightarrow> translation_dict \<Rightarrow> (nat \<times> nat) list \<Rightarrow> ElementHandler \<Rightarrow> world
     \<Rightarrow> py_error + (ElementHandler \<times> world)" where
  "apply_translations L tr [] h w = Inr (h, w)"
| "apply_translations L tr ((eid, r) # items) h w =
     (case deref r w of
        Inl err \<Rightarrow> Inl err
      | Inr e \<Rightarrow>
          if ignored e then
            (case add_translation L e None (position h) None (original_color h) None (doc w) of
               Inl err \<Rightarrow> Inl err
             | Inr (e, d) \<Rightarrow> apply_translations L tr items h (store r e (w\<lparr>doc := d\<rparr>)))
          else
            (case get_content L e (doc w) of
               Inl err \<Rightarrow> Inl err
             | Inr (orig, e) \<Rightarrow>
                 (case tr orig of
                    None \<Rightarrow>
                      (case add_translation L e None (position h) None (original_color h) None
                              (doc w) of
                         Inl err \<Rightarrow> Inl err
                       | Inr (e, d) \<Rightarrow>
                           apply_translations L tr items h (store r e (w\<lparr>doc := d\<rparr>)))
                  | Some t \<Rightarrow>
                      (case add_translation L e (Some t) (position h) (translation_lang h)
                              (original_color h) (translation_color h) (doc w) of
                         Inl err \<Rightarrow> Inl err
                       | Inr (e, d) \<Rightarrow>
                           apply_translations L tr items
                             (h\<lparr>elements := dict_pop eid (elements h)\<rparr>)
                             (store r e (w\<lparr>doc := d\<rparr>))))))"

text \<open>
  \<open>add_translations\<close> of \<open>ElementHandler\<close>, and the same method as \<open>ElementHandlerMerge\<close>
  inherits it, where \<open>self.prepare_translation\<close> is the overriding one.
\<close>

definition add_translations ::
  "lib \<Rightarrow> ElementHandler \<Rightarrow> Paragraph list \<Rightarrow> world \<Rightarrow> py_error + (ElementHandler \<times> world)" where
  "add_translations L h paragraphs w =
     apply_translations L (prepare_translation paragraphs (\<lambda>k. None)) (elements h) h w"

definition merge_add_translations ::
  "lib \<Rightarrow> ElementHandler \<Rightarrow> Paragraph list \<Rightarrow> world
     \<Rightarrow> py_error + (Paragraph list \<times> ElementHandler \<times> world)" where
  "merge_add_translations L h paragraphs w =
     and_then (merge_prepare_translation L h paragraphs) (\<lambda>(ps, tr).
       and_then (apply_translations L tr (elements h) h w) (\<lambda>(h, w). Inr (ps, h, w)))"

section \<open>Notions of the specification\<close>

text \<open>
  The runs of a text: each maximal block of one repeated character, with its length, from
  left to right. \<open>cap_word_runs\<close> shortens to four the runs of four or more of a word
  character and keeps every other run.
\<close>

function runs :: "string \<Rightarrow> (char \<times> nat) list" where
  "runs [] = []"
| "runs (c # s) =
     (c, Suc (length (takeWhile (\<lambda>d. d = c) s))) # runs (dropWhile (\<lambda>d. d = c) s)"
  by pat_completeness auto
termination
  by (relation "measure length") (auto simp: less_Suc_eq_le length_dropWhile_le)

definition cap_word_runs :: "string \<Rightarrow> string" where
  "cap_word_runs s =
     concat (map (\<lambda>(c, n). replicate (if py_isword c \<and> 4 \<le> n then 4 else n) c) (runs s))"

text \<open>The cells of the table that \<open>_create_table\<close> builds, and the width of a cell.\<close>

definition table_cells :: "xml \<Rightarrow> xml list" where
  "table_cells table = concat (map children (children table))"


text \<open>
  The units of a batch handler, in the words of the specification. \<open>gather\<close> reads the
  elements in order and keeps, for each one that is not ignored, its raw markup and its
  content. \<open>batches\<close> groups them: a unit joins the running batch \<open>(raw, txt)\<close> unless the
  accumulated length would meet or exceed the budget, in which case the running batch, if it
  is not empty, is closed and a new one starts with that unit; the last batch, if it is
  not empty, is closed at the end. \<open>number_batches\<close> makes the record of each batch: its
  index, the fingerprint of the index and the text, the raw markup and the text.
\<close>

fun gather ::
  "lib \<Rightarrow> ElementHandler \<Rightarrow> nat list \<Rightarrow> world \<Rightarrow> py_error + ((string \<times> string) list \<times> world)" where
  "gather L h [] w = Inr ([], w)"
| "gather L h (r # rs) w =
     (case deref r w of
        Inl err \<Rightarrow> Inl err
      | Inr e0 \<Rightarrow>
          if ignored e0 then gather L h rs w
          else
            (case read_element L h r w of
               Inl err \<Rightarrow> Inl err
             | Inr (code, content, e, w') \<Rightarrow>
                 (case gather L h rs w' of
                    Inl err \<Rightarrow> Inl err
                  | Inr (units, w'') \<Rightarrow> Inr ((code, content) # units, w''))))"

fun batches ::
  "int \<Rightarrow> string \<Rightarrow> string \<times> string \<Rightarrow> (string \<times> string) list \<Rightarrow> (string \<times> string) list" where
  "batches budget sep (raw, txt) [] = (if txt \<noteq> [] then [(raw, txt)] else [])"
| "batches budget sep (raw, txt) ((code, content) # units) =
     (if int (length (txt @ content @ sep)) < budget
      then batches budget sep (raw @ code @ sep, txt @ content @ sep) units
      else (if txt \<noteq> [] then [(raw, txt)] else [])
             @ batches budget sep (code, content @ sep) units)"

fun number_batches :: "lib \<Rightarrow> nat \<Rightarrow> (string \<times> string) list \<Rightarrow> original_record list" where
  "number_batches L i [] = []"
| "number_batches L i ((raw, txt) # bs) =
     Merged i (uid L (str_nat i @ txt)) raw txt False # number_batches L (Suc i) bs"

text \<open>The keys of \<open>elements\<close> after the elements \<open>rs\<close> were registered from number \<open>eid\<close> on.\<close>

fun register :: "nat \<Rightarrow> nat list \<Rightarrow> (nat \<times> nat) list \<Rightarrow> (nat \<times> nat) list" where
  "register eid [] m = m"
| "register eid (r # rs) m = register (Suc eid) rs (dict_set eid r m)"

text \<open>
  Extraction, in the words of the specification. A child is a unit when it has text that
  is not blank, or has children and a priority tag, or has a child with a tail that is not
  blank; \<open>found_units\<close> lists the units below a node: each child that is a unit, and for
  every other child the units below it. \<open>numbered\<close> says that every node of a tree is an
  object with a number, and \<open>unit_of\<close> is the page element that wraps such a node.
\<close>

definition is_unit :: "lib \<Rightarrow> xml \<Rightarrow> bool" where
  "is_unit L c \<longleftrightarrow>
     nonblank L (xtext c)
     \<or> (children c \<noteq> [] \<and> tag c \<in> set priority_elements)
     \<or> list_ex (\<lambda>child. nonblank L (xtail child)) (children c)"

fun found_units :: "lib \<Rightarrow> xml \<Rightarrow> xml list" where
  "found_units L (Elem i t a x cs y) =
     concat (map (\<lambda>c. if is_unit L c then [c] else found_units L c) cs)"

fun numbered :: "xml \<Rightarrow> bool" where
  "numbered (Elem i t a x cs y) \<longleftrightarrow> i \<noteq> None \<and> list_all numbered cs"

definition unit_of :: "lib \<Rightarrow> Extraction \<Rightarrow> string option \<Rightarrow> xml \<Rightarrow> Element" where
  "unit_of L X pid n = set_ignored (need_ignore L X n) (projr (PageElement n pid))"


subsection \<open>Placeholders\<close>

text \<open>
  The reserved tags that can be met after the noise pass, the placeholder of an index and
  the decoding pattern of an index (the empty string where the template does not format).
\<close>

definition kept_reserve_tags :: "string list" where
  "kept_reserve_tags = [''img'', ''code'', ''br'', ''hr'', ''kbd'']"

definition reserved :: "xml \<Rightarrow> bool" where
  "reserved n = (tag n \<in> set kept_reserve_tags)"

definition placeholder_of :: "string \<times> string \<Rightarrow> nat \<Rightarrow> string" where
  "placeholder_of p rid =
     (case py_format (fst p) (format_05 rid) of Inl err \<Rightarrow> [] | Inr s \<Rightarrow> s)"

definition pattern_of :: "string \<times> string \<Rightarrow> nat \<Rightarrow> string" where
  "pattern_of p rid =
     (case py_format (snd p) (py_join (BS # ''s*'') (map (\<lambda>c. [c]) (format_05 rid))) of
        Inl err \<Rightarrow> [] | Inr s \<Rightarrow> s)"

text \<open>The nodes of a list of trees in document order, and the text of a parent.\<close>

definition nodes :: "xml list \<Rightarrow> xml list" where
  "nodes cs = concat (map (\<lambda>c. c # descendants c) cs)"

definition joined :: "string option \<Rightarrow> xml list \<Rightarrow> string" where
  "joined x cs = or_empty x @ concat (map (\<lambda>c. concat (itertext c) @ or_empty (xtail c)) cs)"

text \<open>
  The text of a tree in which each reserved node stands as the placeholder of its index:
  the reserved nodes are counted in document order from \<open>count\<close>, a reserved node inside
  another one takes an index but is not part of the text.
\<close>

fun encoded_text :: "(nat \<Rightarrow> string) \<Rightarrow> nat \<Rightarrow> xml \<Rightarrow> string"
  and encoded_children :: "(nat \<Rightarrow> string) \<Rightarrow> nat \<Rightarrow> xml list \<Rightarrow> string" where
  "encoded_text tok count (Elem i t a x cs y) = or_empty x @ encoded_children tok count cs"
| "encoded_children tok count [] = []"
| "encoded_children tok count (c # cs) =
     (if reserved c then tok count else encoded_text tok count c) @ or_empty (xtail c)
       @ encoded_children tok (count + length (filter reserved (c # descendants c))) cs"

text \<open>
  The reserved nodes put back: for each index in turn, the node of that index, serialized,
  replaces the matches of the pattern of that index.
\<close>

definition substituted :: "lib \<Rightarrow> string \<times> string \<Rightarrow> xml list \<Rightarrow> string \<Rightarrow> string" where
  "substituted L p reserve s =
     foldl (\<lambda>s (rid, r). re_sub_fn L (xml_escape L (pattern_of p rid)) (get_string L r False) s)
       s (enumerate 0 reserve)"
section \<open>An instance of the imported functions\<close>

text \<open>
  For evaluating the model on concrete inputs: \<open>plain_lib\<close> gives each imported function a
  simple value. \<open>re.sub\<close> leaves its text as it is (no pattern matches), \<open>trim\<close> is
  \<open>strip\<close>, \<open>uid\<close> and \<open>xml_escape\<close> return their argument, \<open>tostring\<close> writes the
  start tag, the texts and the children, no XPath pattern matches, and \<open>etree.XML\<close> accepts
  nothing.
\<close>

fun plain_tostring :: "xml \<Rightarrow> string" where
  "plain_tostring (Elem i t a x cs y) =
     ''<'' @ t @ ''>'' @ or_empty x
       @ concat (map (\<lambda>c. plain_tostring c @ or_empty (xtail c)) cs) @ ''</'' @ t @ ''>''"

definition plain_lib :: lib where
  "plain_lib =
     \<lparr>re_sub = (\<lambda>pattern repl s. s), re_sub_fn = (\<lambda>pattern repl s. s), trim = py_strip,
      uid = (\<lambda>s. s), ns_x = ''http://www.w3.org/1999/xhtml'', xml_escape = (\<lambda>s. s),
      tostring = plain_tostring, parse_xml = (\<lambda>s. None), json_dumps = (\<lambda>a. ''{}''),
      xpath_exists = (\<lambda>pattern e. False)\<rparr>"


text \<open>
  \<open>token_lib\<close> is \<open>plain_lib\<close> with a \<open>re.sub\<close> for the patterns made of plain characters
  and \<open>\\s*\<close>, on a text in which no match has white space inside: the pattern with every
  \<open>\\s*\<close> left out is replaced where it stands.
\<close>

definition token_lib :: lib where
  "token_lib =
     plain_lib\<lparr>re_sub_fn := (\<lambda>pattern repl s. py_replace s (py_replace pattern (BS # ''s*'') []) repl)\<rparr>"
section \<open>Alignment of a translated batch\<close>










section \<open>Polishing a translation\<close>

lemma condense_match:
  "py_isword c \<Longrightarrow>
     condense (c # replicate 3 c @ s) = replicate 4 c @ condense (dropWhile (\<lambda>d. d = c) s)"
  by (simp add: condense.simps(2))

lemma condense_skip:
  "\<not> (py_isword c \<and> take 3 s = replicate 3 c) \<Longrightarrow> condense (c # s) = c # condense s"
  by (auto simp: condense.simps(2))

lemma condense_run:
  assumes "rest = [] \<or> hd rest \<noteq> c"
  shows "condense (c # replicate k c @ rest)
           = replicate (if py_isword c \<and> 4 \<le> Suc k then 4 else Suc k) c @ condense rest"
proof (induction k)
  case 0
  have "take 3 rest \<noteq> replicate 3 c"
    using assms by (cases rest) (auto simp: numeral_3_eq_3)
  then show ?case
    by (simp add: condense.simps(2))
next
  case (Suc k)
  show ?case
  proof (cases "py_isword c \<and> 3 \<le> Suc k")
    case True
    then obtain j where j: "Suc k = 3 + j"
      by (metis le_Suc_ex)
    have drop: "dropWhile (\<lambda>d. d = c) (replicate j c @ rest) = rest"
      using assms by (cases rest) (auto simp: dropWhile_append3)
    have "replicate (Suc k) c @ rest = replicate 3 c @ replicate j c @ rest"
      by (simp only: j replicate_add append_assoc)
    then have "condense (c # replicate (Suc k) c @ rest) = replicate 4 c @ condense rest"
      using True drop condense_match [of c "replicate j c @ rest"] by simp
    then show ?thesis
      using True by simp
  next
    case False
    have "take 3 (replicate (Suc k) c @ rest) \<noteq> replicate 3 c" if "py_isword c"
    proof -
      from False that have "Suc k < 3" by simp
      then consider "k = 0" | "k = 1" by linarith
      then show ?thesis
        using assms by cases (cases rest; auto simp: numeral_3_eq_3)+
    qed
    then have "condense (c # replicate (Suc k) c @ rest) = c # condense (replicate (Suc k) c @ rest)"
      by (intro condense_skip) blast
    also have "\<dots> = c # replicate (if py_isword c \<and> 4 \<le> Suc k then 4 else Suc k) c @ condense rest"
      using Suc.IH by simp
    finally show ?thesis
      using False by auto
  qed
qed

lemma takeWhile_eq_replicate:
  "takeWhile (\<lambda>d. d = c) s = replicate (length (takeWhile (\<lambda>d. d = c) s)) c"
  by (induction s) auto

lemma dropWhile_head: "dropWhile (\<lambda>d. d = c) s = [] \<or> hd (dropWhile (\<lambda>d. d = c) s) \<noteq> c"
  by (induction s) auto

lemma condense_cap_word_runs: "condense s = cap_word_runs s"
proof (induction s rule: runs.induct)
  case 1
  show ?case by (simp add: cap_word_runs_def)
next
  case (2 c s)
  define k where "k = length (takeWhile (\<lambda>d. d = c) s)"
  define rest where "rest = dropWhile (\<lambda>d. d = c) s"
  have s: "s = replicate k c @ rest"
    unfolding k_def rest_def
    by (subst takeWhile_eq_replicate [symmetric]) simp
  have "condense (c # s) = replicate (if py_isword c \<and> 4 \<le> Suc k then 4 else Suc k) c @ condense rest"
    unfolding s by (rule condense_run, unfold rest_def, rule dropWhile_head)
  also have "condense rest = cap_word_runs rest"
    using 2 by (simp add: rest_def)
  finally show ?case
    by (simp add: cap_word_runs_def k_def rest_def)
qed

text \<open>
  C9 (as amended). \<open>_polish_translation\<close> first writes every newline as \<open><br />\<close>; then
  every run of four or more copies of one word character (a letter, a digit or the
  underscore) is shortened to four copies, and every other run, of whatever length, is kept.
  In particular \<open>helllllo\<close> becomes \<open>hellllo\<close>.
\<close>

theorem polish_translation_caps_word_runs:
  "polish_translation t = cap_word_runs (py_replace t [NL] ''<br />'')
   \<and> polish_translation ''helllllo'' = ''hellllo''"
proof
  show "polish_translation t = cap_word_runs (py_replace t [NL] ''<br />'')"
    by (simp add: polish_translation_def condense_cap_word_runs)
  show "polish_translation ''helllllo'' = ''hellllo''"
    by code_simp
qed

theorem polish_translation_caps_word_runs_witness:
  "polish_translation (''zzzzzz!!!!!!'' @ [NL] @ ''__________'') = ''zzzz!!!!!!<br />____''"
proof -
  have "cap_word_runs (py_replace (''zzzzzz!!!!!!'' @ [NL] @ ''__________'') [NL] ''<br />'')
          = ''zzzz!!!!!!<br />____''"
    by code_simp
  with polish_translation_caps_word_runs [of "''zzzzzz!!!!!!'' @ [NL] @ ''__________''"]
  show ?thesis
    by simp
qed

text \<open>
  The claim as stated fails on a run of a character that is not a word character: six full
  stops stay six.
\<close>

theorem polish_translation_counterexample:
  "polish_translation ''a......b'' = ''a......b''
   \<and> runs ''a......b'' = [(CHR ''a'', 1), (CHR ''.'', 6), (CHR ''b'', 1)]"
  by code_simp

section \<open>The side-by-side table\<close>





section \<open>Batches of the merge handler\<close>

lemma read_element_handler [simp]:
  "read_element L (h\<lparr>elements := m\<rparr>) r w = read_element L h r w"
  "read_element L (h\<lparr>originals := os\<rparr>) r w = read_element L h r w"
  by (simp_all add: read_element_def)

lemma gather_handler [simp]:
  "gather L (h\<lparr>elements := m\<rparr>) rs w = gather L h rs w"
  "gather L (h\<lparr>originals := os\<rparr>) rs w = gather L h rs w"
  by (induction rs arbitrary: w) (simp_all split: sum.splits)

lemma number_batches_append:
  "number_batches L i (bs @ cs) = number_batches L i bs @ number_batches L (i + length bs) cs"
  by (induction bs arbitrary: i) auto

lemma merge_from_batches:
  "and_then (merge_from L rs eid raw txt oid h w)
       (\<lambda>(raw, txt, oid, h, w). flush_last L raw txt oid h w) =
     (case gather L h rs w of
        Inl err \<Rightarrow> Inl err
      | Inr (units, w') \<Rightarrow>
          (let recs = originals h
                 @ number_batches L oid (batches (merge_length h) (separator h) (raw, txt) units)
           in Inr (recs, h\<lparr>elements := register eid rs (elements h), originals := recs\<rparr>, w')))"
proof (induction rs arbitrary: eid raw "txt" oid h w)
  case Nil
  show ?case
    by (simp add: and_then_def flush_last_def Let_def)
next
  case (Cons r rs)
  show ?case
  proof (cases "deref r w")
    case (Inl err)
    then show ?thesis by (simp add: and_then_def)
  next
    case (Inr e0)
    show ?thesis
    proof (cases "ignored e0")
      case True
      then show ?thesis
        using Inr Cons.IH [of "Suc eid" raw "txt" oid "h\<lparr>elements := dict_set eid r (elements h)\<rparr>" w]
        by (simp add: Let_def split: sum.splits)
    next
      case False
      show ?thesis
      proof (cases "read_element L h r w")
        case (Inl err)
        then show ?thesis using Inr False by (simp add: and_then_def Let_def)
      next
        case rd: (Inr res)
        obtain code content e w1 where res: "res = (code, content, e, w1)"
          by (cases res) auto
        show ?thesis
          using Inr False rd res
            Cons.IH [of "Suc eid" "raw @ code @ separator h" "txt @ content @ separator h" oid
              "h\<lparr>elements := dict_set eid r (elements h)\<rparr>" w1]
            Cons.IH [of "Suc eid" code "content @ separator h" "Suc oid"
              "h\<lparr>elements := dict_set eid r (elements h),
                 originals := originals h @ [Merged oid (uid L (str_nat oid @ txt)) raw txt False]\<rparr>" w1]
            Cons.IH [of "Suc eid" code "content @ separator h" oid
              "h\<lparr>elements := dict_set eid r (elements h)\<rparr>" w1]
          by (simp add: Let_def split: sum.splits)
      qed
    qed
  qed
qed


lemma o_raw_number_batches [simp]: "map o_raw (number_batches L i bs) = map fst bs"
  by (induction bs arbitrary: i) auto

lemma o_txt_number_batches [simp]: "map o_txt (number_batches L i bs) = map snd bs"
  by (induction bs arbitrary: i) auto

lemma batches_txt:
  "concat (map snd (batches budget sep (raw, t) units))
     = t @ concat (map (\<lambda>(code, content). content @ sep) units)"
  by (induction units arbitrary: raw t) auto

lemma batches_fit:
  assumes "int (length (t @ concat (map (\<lambda>(code, content). content @ sep) units))) < budget"
  shows "batches budget sep (raw, t) units =
     (if t @ concat (map (\<lambda>(code, content). content @ sep) units) \<noteq> []
      then [(raw @ concat (map (\<lambda>(code, content). code @ sep) units),
             t @ concat (map (\<lambda>(code, content). content @ sep) units))]
      else [])"
  using assms
proof (induction units arbitrary: raw t)
  case Nil
  then show ?case by simp
next
  case (Cons u units)
  obtain code content where u: "u = (code, content)"
    by (cases u)
  from Cons.prems have fit: "int (length (t @ content @ sep)) < budget"
    by (simp add: u)
  from Cons.prems
  have "int (length ((t @ content @ sep)
          @ concat (map (\<lambda>(code, content). content @ sep) units))) < budget"
    by (simp add: u)
  from Cons.IH [OF this, of "raw @ code @ sep"] fit show ?case
    by (simp add: u)
qed

text \<open>
  C7. \<open>ElementHandlerMerge.prepare_original\<close> fails exactly when reading an element fails.
  Otherwise it registers every element and appends to \<open>originals\<close> the records of the
  batches of the units that are not ignored: a unit joins the running batch unless the
  accumulated length would meet or exceed \<open>merge_length\<close>, in which case the running batch
  is closed and a new one starts with the unit, and the last batch is closed at the end;
  the record of batch \<open>i\<close> holds \<open>i\<close>, the fingerprint of \<open>i\<close> and the accumulated text,
  the accumulated raw markup and the text. With \<open>merge_length\<close> 50 and a newline as the
  separator, the contents \<open>Hello world.\<close> and \<open>This is a test.\<close> make one batch.
\<close>

theorem merge_prepare_original_batches:
  "merge_prepare_original L h els w =
     (case gather L h els w of
        Inl err \<Rightarrow> Inl err
      | Inr (units, w') \<Rightarrow>
          (let recs = originals h
                 @ number_batches L 0 (batches (merge_length h) (separator h) ([], []) units)
           in Inr (recs, h\<lparr>elements := register 0 els (elements h), originals := recs\<rparr>, w')))
   \<and> map_sum id (\<lambda>(recs, h, w). map o_txt recs)
        (merge_prepare_original plain_lib (new_handler (''{{{{id_{}}}}}'', ''{{{{id_{}}}}}'') [NL] ''below'' 50) [0, 1]
           \<lparr>doc = \<lparr>root = Elem (Some 0) ''body'' [] None
                    [Elem (Some 1) ''p'' [] (Some ''Hello world.'') [] None,
                     Elem (Some 2) ''p'' [] (Some ''This is a test.'') [] None] None,
                 detached = []\<rparr>,
          heap = [new_element (Page 1) None, new_element (Page 2) None]\<rparr>)
     = Inr [''Hello world.'' @ [NL] @ ''This is a test.'' @ [NL]]"
proof
  show "merge_prepare_original L h els w =
     (case gather L h els w of
        Inl err \<Rightarrow> Inl err
      | Inr (units, w') \<Rightarrow>
          (let recs = originals h
                 @ number_batches L 0 (batches (merge_length h) (separator h) ([], []) units)
           in Inr (recs, h\<lparr>elements := register 0 els (elements h), originals := recs\<rparr>, w')))"
    unfolding merge_prepare_original_def by (rule merge_from_batches)
  show "map_sum id (\<lambda>(recs, h, w). map o_txt recs)
        (merge_prepare_original plain_lib (new_handler (''{{{{id_{}}}}}'', ''{{{{id_{}}}}}'') [NL] ''below'' 50) [0, 1]
           \<lparr>doc = \<lparr>root = Elem (Some 0) ''body'' [] None
                    [Elem (Some 1) ''p'' [] (Some ''Hello world.'') [] None,
                     Elem (Some 2) ''p'' [] (Some ''This is a test.'') [] None] None,
                 detached = []\<rparr>,
          heap = [new_element (Page 1) None, new_element (Page 2) None]\<rparr>)
     = Inr [''Hello world.'' @ [NL] @ ''This is a test.'' @ [NL]]"
    by code_simp
qed

theorem merge_prepare_original_batches_witness:
  "\<exists>h' w'.
     merge_prepare_original plain_lib (new_handler (''{{{{id_{}}}}}'', ''{{{{id_{}}}}}'') [NL] ''below'' 10) [0, 1, 2]
       \<lparr>doc = \<lparr>root = Elem (Some 0) ''body'' [] None
                    [Elem (Some 1) ''p'' [] (Some ''aaaa'') [] None,
                     Elem (Some 2) ''p'' [] (Some ''bbbb'') [] None,
                     Elem (Some 3) ''p'' [] (Some ''cc'') [] None] None,
                 detached = []\<rparr>,
          heap = [new_element (Page 1) None, new_element (Page 2) None,
                  new_element (Page 3) None]\<rparr>
     = Inr ([Merged 0 (''0aaaa'' @ [NL]) (''<p>aaaa</p>'' @ [NL]) (''aaaa'' @ [NL]) False,
             Merged 1 (''1bbbb'' @ [NL] @ ''cc'' @ [NL]) (''<p>bbbb</p><p>cc</p>'' @ [NL])
               (''bbbb'' @ [NL] @ ''cc'' @ [NL]) False], h', w')"
proof -
  define h where "h = new_handler (''{{{{id_{}}}}}'', ''{{{{id_{}}}}}'') [NL] ''below'' 10"
  define w where "w = \<lparr>doc = \<lparr>root = Elem (Some 0) ''body'' [] None
                    [Elem (Some 1) ''p'' [] (Some ''aaaa'') [] None,
                     Elem (Some 2) ''p'' [] (Some ''bbbb'') [] None,
                     Elem (Some 3) ''p'' [] (Some ''cc'') [] None] None,
                 detached = []\<rparr>,
          heap = [new_element (Page 1) None, new_element (Page 2) None,
                  new_element (Page 3) None]\<rparr>"
  have "map_sum id fst (gather plain_lib h [0, 1, 2] w)
          = Inr [(''<p>aaaa</p>'', ''aaaa''), (''<p>bbbb</p>'', ''bbbb''), (''<p>cc</p>'', ''cc'')]"
    unfolding h_def w_def by code_simp
  then obtain w' where g: "gather plain_lib h [0, 1, 2] w
      = Inr ([(''<p>aaaa</p>'', ''aaaa''), (''<p>bbbb</p>'', ''bbbb''), (''<p>cc</p>'', ''cc'')], w')"
    by (cases "gather plain_lib h [0, 1, 2] w") auto
  have b: "originals h @ number_batches plain_lib 0
             (batches (merge_length h) (separator h) ([], [])
                [(''<p>aaaa</p>'', ''aaaa''), (''<p>bbbb</p>'', ''bbbb''), (''<p>cc</p>'', ''cc'')])
      = [Merged 0 (''0aaaa'' @ [NL]) (''<p>aaaa</p>'' @ [NL]) (''aaaa'' @ [NL]) False,
         Merged 1 (''1bbbb'' @ [NL] @ ''cc'' @ [NL]) (''<p>bbbb</p><p>cc</p>'' @ [NL])
           (''bbbb'' @ [NL] @ ''cc'' @ [NL]) False]"
    unfolding h_def by code_simp
  from merge_prepare_original_batches [of plain_lib h "[0, 1, 2]" w]
  have "merge_prepare_original plain_lib h [0, 1, 2] w =
     (case gather plain_lib h [0, 1, 2] w of
        Inl err \<Rightarrow> Inl err
      | Inr (units, w') \<Rightarrow>
          (let recs = originals h
                 @ number_batches plain_lib 0
                     (batches (merge_length h) (separator h) ([], []) units)
           in Inr (recs, h\<lparr>elements := register 0 [0, 1, 2] (elements h), originals := recs\<rparr>,
                   w')))"
    by (rule conjunct1)
  then have "\<exists>h' w'. merge_prepare_original plain_lib h [0, 1, 2] w
     = Inr ([Merged 0 (''0aaaa'' @ [NL]) (''<p>aaaa</p>'' @ [NL]) (''aaaa'' @ [NL]) False,
             Merged 1 (''1bbbb'' @ [NL] @ ''cc'' @ [NL]) (''<p>bbbb</p><p>cc</p>'' @ [NL])
               (''bbbb'' @ [NL] @ ''cc'' @ [NL]) False], h', w')"
    unfolding g by (simp only: sum.case prod.case Let_def b) blast
  then show ?thesis
    by (simp only: h_def w_def)
qed

text \<open>
  C2 (as amended). When every element can be read, \<open>ElementHandlerMerge.prepare_original\<close>
  returns, and of the records it appends: the text fields, concatenated in batch order,
  are the contents of the elements that are not ignored, in order, each followed by the
  separator; and, when the separator is not empty and all that text is shorter than
  \<open>merge_length\<close> (so that no unit meets the budget), the raw fields, concatenated in batch
  order, are the raw markup of the elements that are not ignored, in order, each followed
  by the separator.
\<close>

theorem merge_concatenation:
  assumes "gather L h els w = Inr (units, w')"
  shows "\<exists>recs h'.
     merge_prepare_original L h els w = Inr (originals h @ recs, h', w')
     \<and> concat (map o_txt recs) = concat (map (\<lambda>(code, content). content @ separator h) units)
     \<and> (separator h \<noteq> []
          \<and> int (length (concat (map (\<lambda>(code, content). content @ separator h) units)))
               < merge_length h
        \<longrightarrow> concat (map o_raw recs)
              = concat (map (\<lambda>(code, content). code @ separator h) units))"
proof -
  define bs where "bs = batches (merge_length h) (separator h) ([], []) units"
  define recs where "recs = number_batches L 0 bs"
  have run: "merge_prepare_original L h els w
      = Inr (originals h @ recs,
             h\<lparr>elements := register 0 els (elements h), originals := originals h @ recs\<rparr>, w')"
    unfolding merge_prepare_original_def merge_from_batches
    using assms by (simp add: Let_def recs_def bs_def)
  have t: "concat (map o_txt recs)
      = concat (map (\<lambda>(code, content). content @ separator h) units)"
    using batches_txt [of "merge_length h" "separator h" "[]" "[]" units]
    by (simp add: recs_def bs_def)
  have r: "concat (map o_raw recs) = concat (map (\<lambda>(code, content). code @ separator h) units)"
    if sep: "separator h \<noteq> []"
      and fit: "int (length (concat (map (\<lambda>(code, content). content @ separator h) units)))
               < merge_length h"
  proof (cases units)
    case Nil
    then show ?thesis by (simp add: recs_def bs_def)
  next
    case (Cons u us)
    then have "concat (map (\<lambda>(code, content). content @ separator h) units) \<noteq> []"
      using sep by (cases u) auto
    with batches_fit [of "[]" "separator h" units "merge_length h" "[]"] fit
    show ?thesis
      by (simp add: recs_def bs_def)
  qed
  from run t r show ?thesis
    by blast
qed

theorem merge_concatenation_witness:
  "\<exists>recs h' w'.
     merge_prepare_original plain_lib (new_handler (''{{{{id_{}}}}}'', ''{{{{id_{}}}}}'') [NL] ''below'' 50) [0, 1]
       \<lparr>doc = \<lparr>root = Elem (Some 0) ''body'' [] None
                    [Elem (Some 1) ''p'' [] (Some ''Hello world.'') [] None,
                     Elem (Some 2) ''p'' [] (Some ''This is a test.'') [] None] None,
                 detached = []\<rparr>,
          heap = [new_element (Page 1) None, new_element (Page 2) None]\<rparr>
     = Inr (recs, h', w')
     \<and> concat (map o_txt recs) = ''Hello world.'' @ [NL] @ ''This is a test.'' @ [NL]
     \<and> concat (map o_raw recs)
         = ''<p>Hello world.</p>'' @ [NL] @ ''<p>This is a test.</p>'' @ [NL]"
proof -
  define h where "h = new_handler (''{{{{id_{}}}}}'', ''{{{{id_{}}}}}'') [NL] ''below'' 50"
  define w where "w = \<lparr>doc = \<lparr>root = Elem (Some 0) ''body'' [] None
                    [Elem (Some 1) ''p'' [] (Some ''Hello world.'') [] None,
                     Elem (Some 2) ''p'' [] (Some ''This is a test.'') [] None] None,
                 detached = []\<rparr>,
          heap = [new_element (Page 1) None, new_element (Page 2) None]\<rparr>"
  define units where "units = [(''<p>Hello world.</p>'', ''Hello world.''),
                               (''<p>This is a test.</p>'', ''This is a test.'')]"
  have "map_sum id fst (gather plain_lib h [0, 1] w) = Inr units"
    unfolding h_def w_def units_def by code_simp
  then obtain w' where g: "gather plain_lib h [0, 1] w = Inr (units, w')"
    by (cases "gather plain_lib h [0, 1] w") auto
  have sep: "separator h \<noteq> []" and none: "originals h = []"
    by (simp_all add: h_def new_handler_def)
  have fit: "int (length (concat (map (\<lambda>(code, content). content @ separator h) units)))
               < merge_length h"
    unfolding h_def units_def by code_simp
  have t: "concat (map (\<lambda>(code, content). content @ separator h) units)
             = ''Hello world.'' @ [NL] @ ''This is a test.'' @ [NL]"
    and r: "concat (map (\<lambda>(code, content). code @ separator h) units)
             = ''<p>Hello world.</p>'' @ [NL] @ ''<p>This is a test.</p>'' @ [NL]"
    unfolding h_def units_def by code_simp+
  from merge_concatenation [OF g] sep fit
  have "\<exists>recs h' w'.
     merge_prepare_original plain_lib h [0, 1] w = Inr (recs, h', w')
     \<and> concat (map o_txt recs) = ''Hello world.'' @ [NL] @ ''This is a test.'' @ [NL]
     \<and> concat (map o_raw recs)
         = ''<p>Hello world.</p>'' @ [NL] @ ''<p>This is a test.</p>'' @ [NL]"
    unfolding none t r by auto
  then show ?thesis
    by (simp only: h_def w_def)
qed

text \<open>
  The claim as stated fails. An ignored element (here a \<open>pre\<close>) gives no raw markup to any
  batch, so the raw fields reproduce the raw markup of the elements neither when both
  sides are joined by the separator nor when each part is followed by it. And a batch that
  starts when the budget is met holds its first unit without a separator after it: with
  the budget 10 the contents \<open>aaaa\<close>, \<open>bbbb\<close>, \<open>cc\<close> give the raw fields
  \<open><p>aaaa</p>\<close> newline and \<open><p>bbbb</p><p>cc</p>\<close> newline.
\<close>

theorem merge_concatenation_counterexample:
  "(let raws = map_sum id (\<lambda>(recs, h, w). map o_raw recs)
       (merge_prepare_original plain_lib (new_handler (''{{{{id_{}}}}}'', ''{{{{id_{}}}}}'') [NL] ''below'' 50) [0, 1]
          \<lparr>doc = \<lparr>root = Elem (Some 0) ''body'' [] None
                    [Elem (Some 1) ''p'' [] (Some ''A'') [] None,
                     Elem (Some 2) ''pre'' [] (Some ''I'') [] None] None,
                 detached = []\<rparr>,
          heap = [new_element (Page 1) None, set_ignored True (new_element (Page 2) None)]\<rparr>)
    in raws = Inr [''<p>A</p>'' @ [NL]]
     \<and> py_join [NL] [''<p>A</p>'' @ [NL]] \<noteq> py_join [NL] [''<p>A</p>'', ''<pre>I</pre>'']
     \<and> concat [''<p>A</p>'' @ [NL]] \<noteq> concat (map (\<lambda>c. c @ [NL]) [''<p>A</p>'', ''<pre>I</pre>'']))
   \<and> (let raws = map_sum id (\<lambda>(recs, h, w). map o_raw recs)
       (merge_prepare_original plain_lib (new_handler (''{{{{id_{}}}}}'', ''{{{{id_{}}}}}'') [NL] ''below'' 10) [0, 1, 2]
          \<lparr>doc = \<lparr>root = Elem (Some 0) ''body'' [] None
                    [Elem (Some 1) ''p'' [] (Some ''aaaa'') [] None,
                     Elem (Some 2) ''p'' [] (Some ''bbbb'') [] None,
                     Elem (Some 3) ''p'' [] (Some ''cc'') [] None] None,
                 detached = []\<rparr>,
          heap = [new_element (Page 1) None, new_element (Page 2) None,
                  new_element (Page 3) None]\<rparr>)
    in raws = Inr [''<p>aaaa</p>'' @ [NL], ''<p>bbbb</p><p>cc</p>'' @ [NL]]
     \<and> py_join [NL] [''<p>aaaa</p>'' @ [NL], ''<p>bbbb</p><p>cc</p>'' @ [NL]]
          \<noteq> py_join [NL] [''<p>aaaa</p>'', ''<p>bbbb</p>'', ''<p>cc</p>'']
     \<and> concat [''<p>aaaa</p>'' @ [NL], ''<p>bbbb</p><p>cc</p>'' @ [NL]]
          \<noteq> concat (map (\<lambda>c. c @ [NL]) [''<p>aaaa</p>'', ''<p>bbbb</p>'', ''<p>cc</p>'']))"
  by code_simp

section \<open>Extraction of the units of a page\<close>

lemma element_has_content_is_unit: "element_has_content L c = is_unit L c"
  by (auto simp: element_has_content_def is_unit_def)

lemma PageElement_numbered:
  "numbered n \<Longrightarrow> PageElement n pid = Inr (projr (PageElement n pid))"
  by (cases n) (auto simp: PageElement_def)

lemma extract_found:
  "numbered node \<Longrightarrow>
     extract_elements L X pid node els =
       Inr (let found = els @ map (unit_of L X pid) (found_units L node)
            in (if found \<noteq> [] then found else [unit_of L X pid node], found))"
  "list_all numbered cs \<Longrightarrow>
     extract_children L X pid cs els =
       Inr (els @ map (unit_of L X pid)
                    (concat (map (\<lambda>c. if is_unit L c then [c] else found_units L c) cs)))"
proof (induction L X pid node els and L X pid cs els
    rule: extract_elements_extract_children.induct)
  case (1 L X pid i t a x cs y elements)
  define u where "u = projr (PageElement (Elem i t a x cs y) pid)"
  define found where "found = elements @ map (unit_of L X pid) (found_units L (Elem i t a x cs y))"
  from "1.prems" have cs: "list_all numbered cs"
    by simp
  have ch: "extract_children L X pid cs elements = Inr found"
    using "1.IH" [OF cs] by (simp add: found_def)
  have pe: "PageElement (Elem i t a x cs y) pid = Inr u"
    unfolding u_def by (rule PageElement_numbered [OF "1.prems"])
  have "extract_elements L X pid (Elem i t a x cs y) elements
      = Inr (if found \<noteq> [] then found
             else [set_ignored (need_ignore L X (Elem i t a x cs y)) u], found)"
    by (simp only: extract_elements.simps ch pe sum.case Let_def)
  then show ?case
    by (simp add: Let_def found_def unit_of_def u_def)
next
  case (2 L X pid elements)
  show ?case by simp
next
  case (3 L X pid c cs elements)
  from "3.prems" have c: "numbered c" and cs: "list_all numbered cs"
    by simp_all
  define u where "u = projr (PageElement c pid)"
  have pe: "PageElement c pid = Inr u"
    unfolding u_def by (rule PageElement_numbered [OF c])
  show ?case
  proof (cases "element_has_content L c")
    case True
    have "extract_children L X pid (c # cs) elements
        = extract_children L X pid cs (elements @ [set_ignored (need_ignore L X c) u])"
      using True by (simp only: extract_children.simps pe sum.case if_True)
    also note "3.IH"(1) [OF True pe cs]
    finally show ?thesis
      using True by (simp add: element_has_content_is_unit unit_of_def u_def)
  next
    case False
    define found where "found = elements @ map (unit_of L X pid) (found_units L c)"
    have rec: "extract_elements L X pid c elements
        = Inr (if found \<noteq> [] then found else [unit_of L X pid c], found)"
      using "3.IH"(2) [OF False c] by (simp only: Let_def found_def)
    have "extract_children L X pid (c # cs) elements = extract_children L X pid cs found"
      using False by (simp only: extract_children.simps rec sum.case prod.case if_False)
    also note "3.IH"(3) [OF False rec refl cs]
    finally show ?thesis
      using False by (simp add: element_has_content_is_unit found_def)
  qed
qed

text \<open>
  C6 (as amended). For a tree whose nodes are all objects with a number: a call of
  \<open>extract_elements\<close> on a node appends to \<open>elements\<close> the units found below the node, where a
  child is a unit exactly when it has text that is not blank, or has children and a tag of
  the priority set, or has a child with a tail that is not blank, and where extraction goes
  on below every other child; it returns \<open>elements\<close> when that list is not empty, and the
  node itself as the only unit when it is empty. So the call for the body of a page, which
  starts from an empty list, returns the body itself exactly when nothing below it is a
  unit.
\<close>

theorem extract_elements_units:
  assumes "numbered node"
  shows "extract_elements L X pid node els =
       Inr (let found = els @ map (unit_of L X pid) (found_units L node)
            in (if found \<noteq> [] then found else [unit_of L X pid node], found))
   \<and> extract_page L X pid node =
       Inr (if found_units L node = [] then [unit_of L X pid node]
            else map (unit_of L X pid) (found_units L node))
   \<and> (element_has_content L c \<longleftrightarrow>
         nonblank L (xtext c)
         \<or> (children c \<noteq> [] \<and> tag c \<in> set priority_elements)
         \<or> list_ex (\<lambda>child. nonblank L (xtail child)) (children c))"
proof (intro conjI)
  show "extract_elements L X pid node els =
       Inr (let found = els @ map (unit_of L X pid) (found_units L node)
            in (if found \<noteq> [] then found else [unit_of L X pid node], found))"
    using assms by (rule extract_found(1))
  show "extract_page L X pid node =
       Inr (if found_units L node = [] then [unit_of L X pid node]
            else map (unit_of L X pid) (found_units L node))"
    using extract_found(1) [OF assms, of L X pid "[]"]
    by (simp add: extract_page_def Let_def)
  show "element_has_content L c \<longleftrightarrow>
         nonblank L (xtext c)
         \<or> (children c \<noteq> [] \<and> tag c \<in> set priority_elements)
         \<or> list_ex (\<lambda>child. nonblank L (xtail child)) (children c)"
    by (simp add: element_has_content_is_unit is_unit_def)
qed

theorem extract_elements_units_witness:
  "extract_page plain_lib \<lparr>element_patterns = []\<rparr> None
       (Elem (Some 0) ''body'' [] None
          [Elem (Some 1) ''div'' [] None [Elem (Some 2) ''span'' [] (Some ''inner'') [] None] None,
           Elem (Some 3) ''div'' [] None [] None] None)
     = Inr [new_element (Page 2) None]
   \<and> extract_page plain_lib \<lparr>element_patterns = []\<rparr> None
       (Elem (Some 0) ''body'' [] None [Elem (Some 1) ''div'' [] None [] None] None)
     = Inr [new_element (Page 0) None]"
proof -
  have n1: "numbered (Elem (Some 0) ''body'' [] None
          [Elem (Some 1) ''div'' [] None [Elem (Some 2) ''span'' [] (Some ''inner'') [] None] None,
           Elem (Some 3) ''div'' [] None [] None] None)"
    and n2: "numbered (Elem (Some 0) ''body'' [] None [Elem (Some 1) ''div'' [] None [] None] None)"
    by code_simp+
  have f1: "found_units plain_lib (Elem (Some 0) ''body'' [] None
          [Elem (Some 1) ''div'' [] None [Elem (Some 2) ''span'' [] (Some ''inner'') [] None] None,
           Elem (Some 3) ''div'' [] None [] None] None)
      = [Elem (Some 2) ''span'' [] (Some ''inner'') [] None]"
    and f2: "found_units plain_lib (Elem (Some 0) ''body'' [] None [Elem (Some 1) ''div'' [] None [] None] None) = []"
    by code_simp+
  have u1: "unit_of plain_lib \<lparr>element_patterns = []\<rparr> None (Elem (Some 2) ''span'' [] (Some ''inner'') [] None)
      = new_element (Page 2) None"
    and u2: "unit_of plain_lib \<lparr>element_patterns = []\<rparr> None (Elem (Some 0) ''body'' [] None [Elem (Some 1) ''div'' [] None [] None] None)
      = new_element (Page 0) None"
    by code_simp+
  from extract_elements_units [OF n1, of plain_lib "\<lparr>element_patterns = []\<rparr>" None "[]"]
    extract_elements_units [OF n2, of plain_lib "\<lparr>element_patterns = []\<rparr>" None "[]"]
  show ?thesis
    by (simp only: f1 f2 u1 u2 list.map list.simps if_True if_False simp_thms)
qed

text \<open>
  The claim as stated fails for a node that is visited when units were already found. In
  the body with a paragraph of text and an empty \<open>div\<close>, nothing below the \<open>div\<close> is a
  unit; the call on the \<open>div\<close> returns the paragraph, not the \<open>div\<close>, and the \<open>div\<close> is no
  unit of the page.
\<close>

theorem extract_elements_units_counterexample:
  "found_units plain_lib (Elem (Some 2) ''div'' [] None [] None) = []
   \<and> extract_elements plain_lib \<lparr>element_patterns = []\<rparr> None (Elem (Some 2) ''div'' [] None [] None)
       [new_element (Page 1) None]
     = Inr ([new_element (Page 1) None], [new_element (Page 1) None])
   \<and> extract_page plain_lib \<lparr>element_patterns = []\<rparr> None
       (Elem (Some 0) ''body'' [] None
          [Elem (Some 1) ''p'' [] (Some ''text'') [] None,
           Elem (Some 2) ''div'' [] None [] None] None)
     = Inr [new_element (Page 1) None]"
  by code_simp

section \<open>Reinsertion without a translation\<close>

lemma nid_map_node:
  assumes "\<And>n. nid (f n) = nid n"
  shows "nid (map_node k f n) = nid n"
  using assms by (cases n) simp

lemma find_nodes_not_None_iff:
  "find_nodes k ts \<noteq> None \<longleftrightarrow> (\<exists>t \<in> set ts. find_node k t \<noteq> None)"
  by (induction ts) (auto split: option.splits)

lemma parent_among_not_None_iff:
  "parent_among k ts \<noteq> None \<longleftrightarrow> (\<exists>t \<in> set ts. parent_in k t \<noteq> None)"
  by (induction ts) (auto split: option.splits)

lemma find_node_self: "nid n = Some k \<Longrightarrow> find_node k n = Some n"
  by (cases n) simp

lemma parent_in_find:
  "parent_in k t \<noteq> None \<Longrightarrow> find_node k t \<noteq> None"
  "parent_among k ts \<noteq> None \<Longrightarrow> find_nodes k ts \<noteq> None"
proof (induction k t and k ts rule: parent_in_parent_among.induct)
  case (1 k i t a x cs y)
  show ?case
  proof (cases "Some k \<in> set (map nid cs)")
    case True
    then obtain c where "c \<in> set cs" "nid c = Some k" by auto
    then have "find_nodes k cs \<noteq> None"
      unfolding find_nodes_not_None_iff using find_node_self by fastforce
    then show ?thesis by simp
  next
    case False
    with 1 show ?thesis by simp
  qed
next
  case (2 k)
  then show ?case by simp
next
  case (3 k c cs)
  then show ?case by (auto split: option.splits)
qed

lemma getparent_lookup: "getparent k d \<noteq> None \<Longrightarrow> lookup k d \<noteq> None"
  unfolding getparent_def lookup_def by (rule parent_in_find(2))

lemma parent_in_map_node:
  assumes f: "\<And>n. nid (f n) = nid n" "\<And>n. children (f n) = children n"
  shows "parent_in k t \<noteq> None \<Longrightarrow> parent_in k (map_node j f t) \<noteq> None"
    and "parent_among k ts \<noteq> None \<Longrightarrow> parent_among k (map (map_node j f) ts) \<noteq> None"
proof (induction k t and k ts rule: parent_in_parent_among.induct)
  case (1 k i t a x cs y)
  show ?case
  proof (cases "Some k \<in> set (map nid cs)")
    case True
    show ?thesis
    proof (cases "i = Some j")
      case j: True
      have "parent_in k (f (Elem i t a x cs y)) \<noteq> None"
        using True f(2) [of "Elem i t a x cs y"]
        by (cases "f (Elem i t a x cs y)") auto
      then show ?thesis using j by simp
    next
      case False
      have "map nid (map (map_node j f) cs) = map nid cs"
        by (simp add: nid_map_node [OF f(1)])
      with True False show ?thesis
        by (simp del: map_map) 
    qed
  next
    case nc: False
    with 1 have rec: "parent_among k (map (map_node j f) cs) \<noteq> None"
      by simp
    show ?thesis
    proof (cases "i = Some j")
      case True
      have "children (f (Elem i t a x cs y)) = cs"
        using f(2) [of "Elem i t a x cs y"] by simp
      moreover from 1 nc have "parent_among k cs \<noteq> None" by simp
      ultimately have "parent_in k (f (Elem i t a x cs y)) \<noteq> None"
        by (cases "f (Elem i t a x cs y)") auto
      then show ?thesis using True by simp
    next
      case False
      then show ?thesis using rec by auto
    qed
  qed
next
  case (2 k)
  then show ?case by simp
next
  case (3 k c cs)
  then show ?case by (auto split: option.splits)
qed


lemma trees_on_trees [simp]: "trees (on_trees g d) = map g (trees d)"
  by (simp add: trees_def on_trees_def)

lemma getparent_update_node:
  assumes "\<And>n. nid (f n) = nid n" "\<And>n. children (f n) = children n"
    and "getparent k d \<noteq> None"
  shows "getparent k (update_node j f d) \<noteq> None"
  using assms(3) parent_in_map_node(2) [OF assms(1,2), of k "trees d" j]
  by (simp add: getparent_def update_node_def)

lemma nid_root_update_node:
  assumes "\<And>n. nid (f n) = nid n"
  shows "nid (root (update_node j f d)) = nid (root d)"
  by (simp add: update_node_def on_trees_def nid_map_node [OF assms])

lemma parent_in_map_parent:
  "(\<And>cs. Some k \<in> set (map nid cs) \<Longrightarrow> Some k \<in> set (map nid (g cs)))
     \<Longrightarrow> parent_in k t \<noteq> None \<Longrightarrow> parent_in k (map_parent k (with_children g) t) \<noteq> None"
  "(\<And>cs. Some k \<in> set (map nid cs) \<Longrightarrow> Some k \<in> set (map nid (g cs)))
     \<Longrightarrow> parent_among k ts \<noteq> None
     \<Longrightarrow> parent_among k (map (map_parent k (with_children g)) ts) \<noteq> None"
proof (induction k t and k ts rule: parent_in_parent_among.induct)
  case (1 k i t a x cs y)
  show ?case
  proof (cases "Some k \<in> set (map nid cs)")
    case True
    with "1.prems"(1) [OF True] show ?thesis
      by (simp add: with_children_def del: set_map)
  next
    case False
    with 1 show ?thesis by auto
  qed
next
  case (2 k)
  then show ?case by simp
next
  case (3 k c cs)
  then show ?case by (auto split: option.splits)
qed

lemma insert_after_keeps: "Some k \<in> set (map nid cs) \<Longrightarrow> Some k \<in> set (map nid (insert_after k new cs))"
  by (induction cs) auto

lemma insert_before_keeps: "Some k \<in> set (map nid cs) \<Longrightarrow> Some k \<in> set (map nid (insert_before k new cs))"
  by (induction cs) auto

lemma getparent_update_parent:
  assumes "\<And>cs. Some k \<in> set (map nid cs) \<Longrightarrow> Some k \<in> set (map nid (g cs))"
    and "getparent k d \<noteq> None"
  shows "getparent k (update_parent k (with_children g) d) \<noteq> None"
  using assms(2) parent_in_map_parent(2) [of k g "trees d"] assms(1)
  by (simp add: getparent_def update_parent_def)

lemma addnext_attached:
  assumes "getparent k d \<noteq> None" "nid (root d) \<noteq> Some k"
  shows "addnext k new d
           = Inr (update_parent k (with_children (insert_after k (anonymous new))) d)"
  using assms by (auto simp: addnext_def add_sibling_def)

lemma delete_attached:
  assumes "getparent k d \<noteq> None"
  shows "delete k d = Inr (remove_child k d)"
  using assms by (auto simp: delete_def)

lemma page_add_translation_None:
  assumes att: "getparent k d \<noteq> None" and nr: "nid (root d) \<noteq> Some k"
  shows "\<exists>n1. lookup k (color_original k oc d) = Some n1
     \<and> page_add_translation L e k None pos lang oc tc d
         = Inr (if pos = ''left'' \<or> pos = ''right''
                then remove_child k
                       (update_parent k
                          (with_children
                             (insert_after k
                                (anonymous (create_table (el_column_gap e) pos (deepcopy n1) None))))
                          (color_original k oc d))
                else color_original k oc d)"
proof -
  define d1 where "d1 = color_original k oc d"
  have att1: "getparent k d1 \<noteq> None"
  proof (cases oc)
    case None
    then show ?thesis using att by (simp add: d1_def color_original_def)
  next
    case (Some c)
    have "getparent k (update_node k (set_attr ''style'' (''color:'' @ c)) d) \<noteq> None"
      by (rule getparent_update_node [OF _ _ att]) (simp_all add: set_attr_def)
    then show ?thesis unfolding d1_def color_original_def Some by simp
  qed
  have nr1: "nid (root d1) \<noteq> Some k"
  proof (cases oc)
    case None
    then show ?thesis using nr by (simp add: d1_def color_original_def)
  next
    case (Some c)
    have "nid (root (update_node k (set_attr ''style'' (''color:'' @ c)) d)) = nid (root d)"
      by (rule nid_root_update_node) (simp add: set_attr_def)
    then show ?thesis using nr unfolding d1_def color_original_def Some by simp
  qed
  from getparent_lookup [OF att1] obtain n1 where n1: "lookup k d1 = Some n1"
    by auto
  let ?table = "create_table (el_column_gap e) pos (deepcopy n1) None"
  let ?d2 = "update_parent k (with_children (insert_after k (anonymous ?table))) d1"
  have add: "addnext k ?table d1 = Inr ?d2"
    using att1 nr1 by (rule addnext_attached)
  have "getparent k ?d2 \<noteq> None"
    using att1 by (intro getparent_update_parent insert_after_keeps)
  then have del: "delete k ?d2 = Inr (remove_child k ?d2)"
    by (rule delete_attached)
  have "page_add_translation L e k None pos lang oc tc d
      = Inr (if pos = ''left'' \<or> pos = ''right'' then remove_child k ?d2 else d1)"
    unfolding page_add_translation_def Let_def d1_def [symmetric]
    using n1 add del by (auto simp: and_then_def)
  with n1 show ?thesis
    unfolding d1_def by blast
qed

lemma get_content_keeps:
  assumes "get_content L e d = Inr (orig, e')"
  shows "e'\<lparr>reserve_elements := reserve_elements e\<rparr> = e"
  using assms
  by (auto simp: get_content_def and_then_def split: payload.splits option.splits sum.splits)

lemma create_table_children:
  "map children (table_cells (create_table cg ''left'' orig None)) = [[], [], [orig]]"
  "map children (table_cells (create_table cg ''right'' orig None)) = [[orig], [], []]"
  by (auto simp: create_table_def table_cells_def Let_def set_attr_def set_text_def
      append_child_def with_children_def split: option.splits)

text \<open>
  C5 (as amended). In \<open>add_translations\<close>, a page element that is registered in \<open>elements\<close>,
  refers to a node with a parent other than the root element, and is ignored or has no
  translation for its content, is given \<open>add_translation(None, position, original_color)\<close>
  and stays registered (the handler is unchanged); the call does not fail. The original
  gets the style \<open>color:c\<close> when an original colour \<open>c\<close> is set. For the positions left
  and right the table built from a copy of the original and no translation is put after
  the original, which is then removed from its parent; the copy is the only content of the
  right cell for left and of the left cell for right. For every other position nothing
  else changes.
\<close>

theorem untranslated_page_unit:
  assumes "deref r w = Inr e" and "element e = Page k"
    and "ignored e \<or> (\<exists>orig e'. get_content L e (doc w) = Inr (orig, e') \<and> tr orig = None)"
    and "getparent k (doc w) \<noteq> None" and "nid (root (doc w)) \<noteq> Some k"
  shows "\<exists>e1 n1.
      e1\<lparr>reserve_elements := reserve_elements e\<rparr> = e
    \<and> lookup k (color_original k (original_color h) (doc w)) = Some n1
    \<and> apply_translations L tr ((eid, r) # items) h w
        = apply_translations L tr items h
            (store r e1
               (w\<lparr>doc :=
                    if position h = ''left'' \<or> position h = ''right''
                    then remove_child k
                           (update_parent k
                              (with_children
                                 (insert_after k
                                    (anonymous (create_table (el_column_gap e) (position h)
                                                  (deepcopy n1) None))))
                              (color_original k (original_color h) (doc w)))
                    else color_original k (original_color h) (doc w)\<rparr>))
    \<and> map children (table_cells (create_table (el_column_gap e) ''left'' (deepcopy n1) None))
        = [[], [], [deepcopy n1]]
    \<and> map children (table_cells (create_table (el_column_gap e) ''right'' (deepcopy n1) None))
        = [[deepcopy n1], [], []]"
proof -
  obtain e1 where e1: "e1\<lparr>reserve_elements := reserve_elements e\<rparr> = e"
    and step: "\<And>d'. add_translation L e1 None (position h) None (original_color h) None (doc w)
                  = Inr (e1, d')
        \<Longrightarrow> apply_translations L tr ((eid, r) # items) h w
              = apply_translations L tr items h (store r e1 (w\<lparr>doc := d'\<rparr>))"
  proof (cases "ignored e")
    case True
    show ?thesis
      by (rule that [of e]) (use True assms(1) in simp_all)
  next
    case False
    with assms(3) obtain orig e' where c: "get_content L e (doc w) = Inr (orig, e')"
      and n: "tr orig = None"
      by blast
    show ?thesis
      by (rule that [of e']) (use False assms(1) c n get_content_keeps [OF c] in simp_all)
  qed
  from e1 have el: "element e1 = Page k" and gap: "el_column_gap e1 = el_column_gap e"
    using assms(2) by (cases e1; cases e; simp)+
  from page_add_translation_None [OF assms(4,5), of "original_color h" L e1 "position h" None None]
  obtain n1 where n1: "lookup k (color_original k (original_color h) (doc w)) = Some n1"
    and run: "page_add_translation L e1 k None (position h) None (original_color h) None (doc w)
      = Inr (if position h = ''left'' \<or> position h = ''right''
             then remove_child k
                    (update_parent k
                       (with_children
                          (insert_after k
                             (anonymous (create_table (el_column_gap e1) (position h)
                                           (deepcopy n1) None))))
                       (color_original k (original_color h) (doc w)))
             else color_original k (original_color h) (doc w))"
    by blast
  have "add_translation L e1 None (position h) None (original_color h) None (doc w)
      = Inr (e1, if position h = ''left'' \<or> position h = ''right''
             then remove_child k
                    (update_parent k
                       (with_children
                          (insert_after k
                             (anonymous (create_table (el_column_gap e) (position h)
                                           (deepcopy n1) None))))
                       (color_original k (original_color h) (doc w)))
             else color_original k (original_color h) (doc w))"
    unfolding add_translation_def el payload.case run gap by (simp add: and_then_def)
  from step [OF this] e1 n1 create_table_children show ?thesis
    by blast
qed

theorem untranslated_page_unit_witness:
  "\<exists>w'. add_translations plain_lib ((new_handler (''{{{{id_{}}}}}'', ''{{{{id_{}}}}}'') [NL, NL] ''left'' 0)\<lparr>elements := [(0, 0)]\<rparr>) []
           \<lparr>doc = \<lparr>root = Elem (Some 0) ''body'' [] None
                       [Elem (Some 1) ''p'' [] (Some ''Hello'') [] None] None,
                  detached = []\<rparr>,
           heap = [set_placeholder (''{{{{id_{}}}}}'', ''{{{{id_{}}}}}'')
                     (new_element (Page 1) None)]\<rparr>
         = Inr (((new_handler (''{{{{id_{}}}}}'', ''{{{{id_{}}}}}'') [NL, NL] ''left'' 0)\<lparr>elements := [(0, 0)]\<rparr>), w')
     \<and> root (doc w')
         = Elem (Some 0) ''body'' [] None
             [Elem None ''table'' [(''width'', ''100%'')] None
              [Elem None ''tr'' [] None
                 [Elem None ''td'' [(''valign'', ''top''), (''width'', ''45%'')] None [] None,
                  Elem None ''td'' [(''width'', ''10%'')] None [] None,
                  Elem None ''td'' [(''valign'', ''top''), (''width'', ''45%'')] None
                    [Elem None ''p'' [] (Some ''Hello'') [] None] None] None] None] None
     \<and> detached (doc w') = [Elem (Some 1) ''p'' [] (Some ''Hello'') [] None]"
proof -
  define h where "h = ((new_handler (''{{{{id_{}}}}}'', ''{{{{id_{}}}}}'') [NL, NL] ''left'' 0)\<lparr>elements := [(0, 0)]\<rparr>)"
  define w where "w = \<lparr>doc = \<lparr>root = Elem (Some 0) ''body'' [] None
                       [Elem (Some 1) ''p'' [] (Some ''Hello'') [] None] None,
                  detached = []\<rparr>,
           heap = [set_placeholder (''{{{{id_{}}}}}'', ''{{{{id_{}}}}}'')
                     (new_element (Page 1) None)]\<rparr>"
  define e where "e = set_placeholder (''{{{{id_{}}}}}'', ''{{{{id_{}}}}}'') (new_element (Page 1) None)"
  define tr where "tr = prepare_translation [] (\<lambda>k. None)"
  have 1: "deref 0 w = Inr e"
    unfolding w_def e_def by code_simp
  have 2: "element e = Page 1"
    unfolding e_def by code_simp
  have "get_content plain_lib e (doc w) = Inr (''Hello'', e)"
    unfolding w_def e_def by code_simp
  moreover have "tr ''Hello'' = None"
    by (simp add: tr_def)
  ultimately
  have 3: "ignored e \<or> (\<exists>orig e'. get_content plain_lib e (doc w) = Inr (orig, e') \<and> tr orig = None)"
    by blast
  have 4: "getparent 1 (doc w) \<noteq> None" and 5: "nid (root (doc w)) \<noteq> Some 1"
    unfolding w_def by code_simp+
  have pos: "position h = ''left''" and oc: "original_color h = None"
    and els: "elements h = [(0, 0)]"
    by (simp_all add: h_def new_handler_def)
  have n: "lookup 1 (color_original 1 None (doc w))
      = Some (Elem (Some 1) ''p'' [] (Some ''Hello'') [] None)"
    unfolding w_def by code_simp
  from untranslated_page_unit [OF 1 2 3 4 5, of h 0 "[]"]
  obtain e1 n1 where n1: "lookup 1 (color_original 1 (original_color h) (doc w)) = Some n1"
    and run: "apply_translations plain_lib tr [(0, 0)] h w
        = apply_translations plain_lib tr [] h
            (store 0 e1
               (w\<lparr>doc :=
                    if position h = ''left'' \<or> position h = ''right''
                    then remove_child 1
                           (update_parent 1
                              (with_children
                                 (insert_after 1
                                    (anonymous (create_table (el_column_gap e) (position h)
                                                  (deepcopy n1) None))))
                              (color_original 1 (original_color h) (doc w)))
                    else color_original 1 (original_color h) (doc w)\<rparr>))"
    by blast
  from n1 n have n1: "n1 = Elem (Some 1) ''p'' [] (Some ''Hello'') [] None"
    by (simp add: oc)
  define D where "D = remove_child 1
                           (update_parent 1
                              (with_children
                                 (insert_after 1
                                    (anonymous (create_table (el_column_gap e) ''left''
                                       (deepcopy (Elem (Some 1) ''p'' [] (Some ''Hello'') [] None))
                                       None))))
                              (color_original 1 None (doc w)))"
  have D: "root D = Elem (Some 0) ''body'' [] None
             [Elem None ''table'' [(''width'', ''100%'')] None
              [Elem None ''tr'' [] None
                 [Elem None ''td'' [(''valign'', ''top''), (''width'', ''45%'')] None [] None,
                  Elem None ''td'' [(''width'', ''10%'')] None [] None,
                  Elem None ''td'' [(''valign'', ''top''), (''width'', ''45%'')] None
                    [Elem None ''p'' [] (Some ''Hello'') [] None] None] None] None] None"
    "detached D = [Elem (Some 1) ''p'' [] (Some ''Hello'') [] None]"
    unfolding D_def w_def e_def by code_simp+
  have "add_translations plain_lib h [] w = Inr (h, store 0 e1 (w\<lparr>doc := D\<rparr>))"
    unfolding add_translations_def els tr_def [symmetric] run
    by (simp add: pos oc n1 D_def)
  moreover have "doc (store 0 e1 (w\<lparr>doc := D\<rparr>)) = D"
    by (simp add: store_def)
  ultimately have "\<exists>w'. add_translations plain_lib h [] w = Inr (h, w')
     \<and> root (doc w')
         = Elem (Some 0) ''body'' [] None
             [Elem None ''table'' [(''width'', ''100%'')] None
              [Elem None ''tr'' [] None
                 [Elem None ''td'' [(''valign'', ''top''), (''width'', ''45%'')] None [] None,
                  Elem None ''td'' [(''width'', ''10%'')] None [] None,
                  Elem None ''td'' [(''valign'', ''top''), (''width'', ''45%'')] None
                    [Elem None ''p'' [] (Some ''Hello'') [] None] None] None] None] None
     \<and> detached (doc w') = [Elem (Some 1) ''p'' [] (Some ''Hello'') [] None]"
    using D by (intro exI [of _ "store 0 e1 (w\<lparr>doc := D\<rparr>)"]) simp
  then show ?thesis
    by (simp only: h_def w_def)
qed

text \<open>
  The claim as stated fails for an ignored unit of the single-unit handler:
  \<open>prepare_original\<close> does not register it, so \<open>add_translations\<close> never calls its
  \<open>add_translation\<close>, and with the position left no table is built around it.
\<close>

theorem untranslated_page_unit_counterexample:
  "prepare_original plain_lib (new_handler (''{{{{id_{}}}}}'', ''{{{{id_{}}}}}'') [NL, NL] ''left'' 0) [0]
     \<lparr>doc = \<lparr>root = Elem (Some 0) ''body'' [] None
                      [Elem (Some 1) ''pre'' [] (Some ''I'') [] None] None,
                 detached = []\<rparr>,
          heap = [set_ignored True (new_element (Page 1) None)]\<rparr>
   = Inr ([Original 0 ''0I'' ''<pre>I</pre>'' ''I'' True None None],
          ((new_handler (''{{{{id_{}}}}}'', ''{{{{id_{}}}}}'') [NL, NL] ''left'' 0)
            \<lparr>originals := [Original 0 ''0I'' ''<pre>I</pre>'' ''I'' True None None]\<rparr>),
          \<lparr>doc = \<lparr>root = Elem (Some 0) ''body'' [] None
                      [Elem (Some 1) ''pre'' [] (Some ''I'') [] None] None,
                 detached = []\<rparr>,
          heap = [set_placeholder (''{{{{id_{}}}}}'', ''{{{{id_{}}}}}'')
                    (set_ignored True (new_element (Page 1) None))]\<rparr>)
   \<and> add_translations plain_lib ((new_handler (''{{{{id_{}}}}}'', ''{{{{id_{}}}}}'') [NL, NL] ''left'' 0)
            \<lparr>originals := [Original 0 ''0I'' ''<pre>I</pre>'' ''I'' True None None]\<rparr>) []
       \<lparr>doc = \<lparr>root = Elem (Some 0) ''body'' [] None
                      [Elem (Some 1) ''pre'' [] (Some ''I'') [] None] None,
                 detached = []\<rparr>,
          heap = [set_placeholder (''{{{{id_{}}}}}'', ''{{{{id_{}}}}}'')
                    (set_ignored True (new_element (Page 1) None))]\<rparr>
     = Inr (((new_handler (''{{{{id_{}}}}}'', ''{{{{id_{}}}}}'') [NL, NL] ''left'' 0)
            \<lparr>originals := [Original 0 ''0I'' ''<pre>I</pre>'' ''I'' True None None]\<rparr>),
            \<lparr>doc = \<lparr>root = Elem (Some 0) ''body'' [] None
                      [Elem (Some 1) ''pre'' [] (Some ''I'') [] None] None,
                 detached = []\<rparr>,
          heap = [set_placeholder (''{{{{id_{}}}}}'', ''{{{{id_{}}}}}'')
                    (set_ignored True (new_element (Page 1) None))]\<rparr>)"
  by code_simp

section \<open>The pending elements of a handler\<close>











end
